theory Spec2Isabelle
  imports Main "HOL-Library.AList" "HOL-Library.Monad_Syntax"
begin

section \<open>Python strings\<close>

text \<open>
  A Python \<open>str\<close> is modelled as a \<open>string\<close>; a character stands for a code point
  below 256. The helpers below are the string methods and operators that
  \<open>src/main.py\<close> uses.
\<close>

text \<open>\<open>str.isspace\<close> of one character: the code points below 256 that Python counts as
  whitespace (tab to carriage return, the four separators 0x1C to 0x1F, the space, NEL and
  the no-break space).\<close>

definition isspace :: "char \<Rightarrow> bool" where
  "isspace c = ((of_char c :: nat) \<in> {9, 10, 11, 12, 13, 28, 29, 30, 31, 32, 133, 160})"

text \<open>\<open>s.lstrip()\<close>, \<open>s.rstrip()\<close> and \<open>s.strip()\<close>.\<close>

definition lstrip :: "string \<Rightarrow> string" where
  "lstrip s = dropWhile isspace s"

definition rstrip :: "string \<Rightarrow> string" where
  "rstrip s = rev (dropWhile isspace (rev s))"

definition strip :: "string \<Rightarrow> string" where
  "strip s = rstrip (lstrip s)"

text \<open>\<open>s.lower()\<close>: the capital letters A to Z, and the capital letters of the upper
  half (0xC0 to 0xDE without the multiplication sign 0xD7), move up by 32.\<close>

definition lower_char :: "char \<Rightarrow> char" where
  "lower_char c =
     (let n = (of_char c :: nat)
      in if (65 \<le> n \<and> n \<le> 90) \<or> (192 \<le> n \<and> n \<le> 222 \<and> n \<noteq> 215)
         then char_of (n + 32) else c)"

definition lower :: "string \<Rightarrow> string" where
  "lower s = map lower_char s"

text \<open>\<open>needle in haystack\<close> on strings: the needle occurs as a contiguous block.\<close>

fun is_prefix :: "string \<Rightarrow> string \<Rightarrow> bool" where
  "is_prefix [] ys = True"
| "is_prefix (x # xs) [] = False"
| "is_prefix (x # xs) (y # ys) = (x = y \<and> is_prefix xs ys)"

fun str_in :: "string \<Rightarrow> string \<Rightarrow> bool" where
  "str_in needle [] = (needle = [])"
| "str_in needle (c # cs) = (is_prefix needle (c # cs) \<or> str_in needle cs)"

text \<open>\<open>sep.join(parts)\<close>.\<close>

fun join :: "string \<Rightarrow> string list \<Rightarrow> string" where
  "join sep [] = []"
| "join sep [p] = p"
| "join sep (p # q # ps) = p @ sep @ join sep (q # ps)"

text \<open>\<open>x or d\<close> for an \<open>Optional[str]\<close>: \<open>None\<close> and the empty string are falsy.\<close>

definition or_default :: "string option \<Rightarrow> string \<Rightarrow> string" where
  "or_default x d = (case x of None \<Rightarrow> d | Some s \<Rightarrow> if s = [] then d else s)"

section \<open>The request and response models\<close>

text \<open>
  The pydantic classes are records; a subclass is a record extension. Two field names
  clash with constants of HOL and carry a suffix: \<open>length_f\<close> is the field \<open>length\<close>
  and \<open>id_f\<close> is the field \<open>id\<close>.
\<close>

record ProductBrief =
  name :: string
  category :: "string option"
  brand :: "string option"
  tagline :: "string option"
  features :: "string list"
  seo_keywords :: "string list"
  tone :: "string option"
  audience :: "string option"
  language :: "string option"
  additional_notes :: "string option"
  length_f :: "string option"

text \<open>\<open>ProductCreateRequest(ProductBrief)\<close>; its field \<open>description\<close> is
  \<open>req_description\<close> here, to keep it apart from the one of \<open>ProductResponse\<close>.\<close>

record ProductCreateRequest = ProductBrief +
  req_description :: "string option"
  auto_generate :: bool

text \<open>
  \<open>ProductUpdateRequest\<close>. The program reads it through
  \<open>request.dict(exclude_unset=True)\<close>, which tells a field that the request body left
  out from a field that it set to \<open>null\<close>. Every field therefore has three states:
  \<open>None\<close> is left out, \<open>Some None\<close> is set to \<open>null\<close>, and \<open>Some (Some v)\<close> is set
  to \<open>v\<close>. The fields carry the prefix \<open>upd_\<close>.
\<close>

record ProductUpdateRequest =
  upd_name :: "string option option"
  upd_category :: "string option option"
  upd_brand :: "string option option"
  upd_tagline :: "string option option"
  upd_features :: "string list option option"
  upd_seo_keywords :: "string list option option"
  upd_tone :: "string option option"
  upd_audience :: "string option option"
  upd_language :: "string option option"
  upd_additional_notes :: "string option option"
  upd_length :: "string option option"
  upd_description :: "string option option"
  upd_regenerate_description :: "bool option option"

section \<open>Timestamps\<close>

text \<open>
  A naive \<open>datetime\<close>, as \<open>datetime.utcnow()\<close> returns it. Python keeps the fields
  within their ranges; \<open>valid_datetime\<close> states them.
\<close>

record datetime =
  year :: nat
  month :: nat
  day :: nat
  hour :: nat
  minute :: nat
  second :: nat
  microsecond :: nat

definition is_leap :: "nat \<Rightarrow> bool" where
  "is_leap y = (y mod 4 = 0 \<and> (y mod 100 \<noteq> 0 \<or> y mod 400 = 0))"

definition days_in_month :: "nat \<Rightarrow> nat \<Rightarrow> nat" where
  "days_in_month y m =
     (if m = 2 then (if is_leap y then 29 else 28)
      else if m \<in> {4, 6, 9, 11} then 30 else 31)"

definition valid_datetime :: "datetime \<Rightarrow> bool" where
  "valid_datetime d =
     (1 \<le> year d \<and> year d \<le> 9999 \<and> 1 \<le> month d \<and> month d \<le> 12
      \<and> 1 \<le> day d \<and> day d \<le> days_in_month (year d) (month d)
      \<and> hour d < 24 \<and> minute d < 60 \<and> second d < 60 \<and> microsecond d < 1000000)"

text \<open>The decimal digit of a number below ten, and a number printed with \<open>k\<close> digits,
  zero-padded (\<open>%04d\<close>, \<open>%02d\<close>, \<open>%06d\<close> on a number that fits).\<close>

definition digit :: "nat \<Rightarrow> char" where
  "digit n = char_of (48 + n)"

fun zero_pad :: "nat \<Rightarrow> nat \<Rightarrow> string" where
  "zero_pad 0 n = []"
| "zero_pad (Suc k) n = zero_pad k (n div 10) @ [digit (n mod 10)]"

text \<open>\<open>datetime.isoformat()\<close> of a naive datetime: the microseconds are printed only
  when they are not zero.\<close>

definition isoformat :: "datetime \<Rightarrow> string" where
  "isoformat d =
     zero_pad 4 (year d) @ ''-'' @ zero_pad 2 (month d) @ ''-'' @ zero_pad 2 (day d)
     @ ''T'' @ zero_pad 2 (hour d) @ '':'' @ zero_pad 2 (minute d) @ '':''
     @ zero_pad 2 (second d)
     @ (if microsecond d \<noteq> 0 then ''.'' @ zero_pad 6 (microsecond d) else [])"

section \<open>Python values and dictionaries\<close>

text \<open>
  The values that occur in the dictionaries of the program: what \<open>json.load\<close> returns
  (numbers are the integers here; floats are left out), and \<open>datetime\<close> objects. A
  \<open>dict\<close> with string keys is an association list in insertion order; \<open>map_of\<close> reads
  a key and \<open>AList.update\<close> is the assignment \<open>d[k] = v\<close> (an existing key keeps its
  place, a new key goes to the end).
\<close>

datatype pyval =
    PNone
  | PBool bool
  | PInt int
  | PStr string
  | PList "pyval list"
  | PDict "(string \<times> pyval) list"
  | PDatetime datetime

type_synonym pydict = "(string \<times> pyval) list"

text \<open>Truth value of an object, as \<open>if x\<close> and \<open>not x\<close> test it.\<close>

fun truthy :: "pyval \<Rightarrow> bool" where
  "truthy PNone = False"
| "truthy (PBool b) = b"
| "truthy (PInt n) = (n \<noteq> 0)"
| "truthy (PStr s) = (s \<noteq> [])"
| "truthy (PList xs) = (xs \<noteq> [])"
| "truthy (PDict d) = (d \<noteq> [])"
| "truthy (PDatetime d) = True"

text \<open>
  The exceptions of the program. \<open>OSError\<close> stands for \<open>OSError\<close> and its
  subclasses (\<open>PermissionError\<close>, \<open>FileNotFoundError\<close> and the others), which an
  \<open>except OSError\<close> clause catches alike. \<open>ValueError\<close> stands for a
  \<open>ValueError\<close> that is neither a \<open>JSONDecodeError\<close> nor a
  \<open>UnicodeDecodeError\<close>.
\<close>

datatype py_exc =
    HTTPException nat string
  | ValidationError
  | TypeError
  | UnicodeDecodeError
  | AttributeError
  | KeyError
  | OSError
  | JSONDecodeError
  | ValueError
  | RecursionError

section \<open>The response model and the dictionaries of the models\<close>

record ProductResponse = ProductBrief +
  id_f :: string
  description :: string
  created_at :: datetime
  updated_at :: datetime

definition opt_str :: "string option \<Rightarrow> pyval" where
  "opt_str x = (case x of None \<Rightarrow> PNone | Some s \<Rightarrow> PStr s)"

definition str_list :: "string list \<Rightarrow> pyval" where
  "str_list xs = PList (map PStr xs)"

text \<open>\<open>brief.dict()\<close>: every field, in the order of the class.\<close>

definition ProductBrief_dict :: "'a ProductBrief_scheme \<Rightarrow> pydict" where
  "ProductBrief_dict b =
     [(''name'', PStr (name b)),
      (''category'', opt_str (category b)),
      (''brand'', opt_str (brand b)),
      (''tagline'', opt_str (tagline b)),
      (''features'', str_list (features b)),
      (''seo_keywords'', str_list (seo_keywords b)),
      (''tone'', opt_str (tone b)),
      (''audience'', opt_str (audience b)),
      (''language'', opt_str (language b)),
      (''additional_notes'', opt_str (additional_notes b)),
      (''length'', opt_str (length_f b))]"

text \<open>\<open>product.dict()\<close> of a \<open>ProductResponse\<close>: the inherited fields first.\<close>

definition ProductResponse_dict :: "ProductResponse \<Rightarrow> pydict" where
  "ProductResponse_dict p =
     ProductBrief_dict p
     @ [(''id'', PStr (id_f p)),
        (''description'', PStr (description p)),
        (''created_at'', PDatetime (created_at p)),
        (''updated_at'', PDatetime (updated_at p))]"

text \<open>\<open>request.dict(exclude_unset=True)\<close> of a \<open>ProductUpdateRequest\<close>: only the
  fields that the request set, in the order of the class.\<close>

definition set_field :: "string \<Rightarrow> ('a \<Rightarrow> pyval) \<Rightarrow> 'a option option \<Rightarrow> pydict" where
  "set_field k conv x =
     (case x of None \<Rightarrow> [] | Some None \<Rightarrow> [(k, PNone)] | Some (Some v) \<Rightarrow> [(k, conv v)])"

definition ProductUpdateRequest_dict_exclude_unset :: "ProductUpdateRequest \<Rightarrow> pydict" where
  "ProductUpdateRequest_dict_exclude_unset r =
     set_field ''name'' PStr (upd_name r)
     @ set_field ''category'' PStr (upd_category r)
     @ set_field ''brand'' PStr (upd_brand r)
     @ set_field ''tagline'' PStr (upd_tagline r)
     @ set_field ''features'' str_list (upd_features r)
     @ set_field ''seo_keywords'' str_list (upd_seo_keywords r)
     @ set_field ''tone'' PStr (upd_tone r)
     @ set_field ''audience'' PStr (upd_audience r)
     @ set_field ''language'' PStr (upd_language r)
     @ set_field ''additional_notes'' PStr (upd_additional_notes r)
     @ set_field ''length'' PStr (upd_length r)
     @ set_field ''description'' PStr (upd_description r)
     @ set_field ''regenerate_description'' PBool (upd_regenerate_description r)"

section \<open>Validation: a model built from a dictionary\<close>

text \<open>
  \<open>ProductBrief(**d)\<close> and \<open>ProductResponse(**d)\<close> validate the dictionary. A key that
  is missing takes the default of its field, \<open>None\<close> is accepted by the \<open>Optional\<close>
  fields only, and a value of the type of the field is taken as it is. A value of another
  type is rejected here with \<open>ValidationError\<close>; pydantic would convert some of these
  (a number given for a string), which no dictionary written by the program contains.
\<close>

definition str_field :: "pydict \<Rightarrow> string \<Rightarrow> string option" where
  "str_field d k = (case map_of d k of Some (PStr s) \<Rightarrow> Some s | _ \<Rightarrow> None)"

definition opt_str_field :: "pydict \<Rightarrow> string \<Rightarrow> string option \<Rightarrow> string option option" where
  "opt_str_field d k dflt =
     (case map_of d k of
        None \<Rightarrow> Some dflt
      | Some PNone \<Rightarrow> Some None
      | Some (PStr s) \<Rightarrow> Some (Some s)
      | Some _ \<Rightarrow> None)"

definition as_str :: "pyval \<Rightarrow> string option" where
  "as_str v = (case v of PStr s \<Rightarrow> Some s | _ \<Rightarrow> None)"

definition str_list_field :: "pydict \<Rightarrow> string \<Rightarrow> string list option" where
  "str_list_field d k =
     (case map_of d k of
        None \<Rightarrow> Some []
      | Some (PList xs) \<Rightarrow> those (map as_str xs)
      | Some _ \<Rightarrow> None)"

text \<open>
  A \<open>datetime\<close> field takes a \<open>datetime\<close> object, or a string that pydantic parses.
  The parser here reads the date, a \<open>T\<close> or a space, the time with seconds, and an
  optional fraction of one to six digits; the other forms that pydantic reads (a zone
  offset, a time without seconds, a number) are not modelled and give \<open>None\<close>.
\<close>

definition digit_val :: "char \<Rightarrow> nat option" where
  "digit_val c =
     (let n = (of_char c :: nat) in if 48 \<le> n \<and> n \<le> 57 then Some (n - 48) else None)"

fun parse_nat_from :: "nat \<Rightarrow> string \<Rightarrow> nat option" where
  "parse_nat_from acc [] = Some acc"
| "parse_nat_from acc (c # cs) =
     (case digit_val c of None \<Rightarrow> None | Some v \<Rightarrow> parse_nat_from (10 * acc + v) cs)"

definition parse_fraction :: "string \<Rightarrow> nat option" where
  "parse_fraction frac =
     (case frac of
        [] \<Rightarrow> Some 0
      | c # ds \<Rightarrow>
          if c = CHR ''.'' \<and> 1 \<le> length ds \<and> length ds \<le> 6
          then map_option (\<lambda>v. v * 10 ^ (6 - length ds)) (parse_nat_from 0 ds)
          else None)"

definition parse_datetime :: "string \<Rightarrow> datetime option" where
  "parse_datetime s =
     (if length s < 19 then None
      else if s ! 4 \<noteq> CHR ''-'' \<or> s ! 7 \<noteq> CHR ''-''
              \<or> (s ! 10 \<noteq> CHR ''T'' \<and> s ! 10 \<noteq> CHR '' '')
              \<or> s ! 13 \<noteq> CHR '':'' \<or> s ! 16 \<noteq> CHR '':'' then None
      else do {
        y \<leftarrow> parse_nat_from 0 (take 4 s);
        mo \<leftarrow> parse_nat_from 0 (take 2 (drop 5 s));
        dd \<leftarrow> parse_nat_from 0 (take 2 (drop 8 s));
        h \<leftarrow> parse_nat_from 0 (take 2 (drop 11 s));
        mi \<leftarrow> parse_nat_from 0 (take 2 (drop 14 s));
        se \<leftarrow> parse_nat_from 0 (take 2 (drop 17 s));
        us \<leftarrow> parse_fraction (drop 19 s);
        (let d = \<lparr>year = y, month = mo, day = dd, hour = h, minute = mi, second = se,
                   microsecond = us\<rparr>
         in if valid_datetime d then Some d else None)
      })"

definition datetime_field :: "pydict \<Rightarrow> string \<Rightarrow> datetime option" where
  "datetime_field d k =
     (case map_of d k of
        Some (PDatetime t) \<Rightarrow> Some t
      | Some (PStr s) \<Rightarrow> parse_datetime s
      | _ \<Rightarrow> None)"

text \<open>\<open>ProductBrief(**d)\<close>, with the defaults of the class.\<close>

definition validate_ProductBrief :: "pydict \<Rightarrow> ProductBrief option" where
  "validate_ProductBrief d = do {
     v_name \<leftarrow> str_field d ''name'';
     v_category \<leftarrow> opt_str_field d ''category'' None;
     v_brand \<leftarrow> opt_str_field d ''brand'' None;
     v_tagline \<leftarrow> opt_str_field d ''tagline'' None;
     v_features \<leftarrow> str_list_field d ''features'';
     v_seo_keywords \<leftarrow> str_list_field d ''seo_keywords'';
     v_tone \<leftarrow> opt_str_field d ''tone'' (Some ''balanced'');
     v_audience \<leftarrow> opt_str_field d ''audience'' None;
     v_language \<leftarrow> opt_str_field d ''language'' (Some ''English'');
     v_additional_notes \<leftarrow> opt_str_field d ''additional_notes'' None;
     v_length \<leftarrow> opt_str_field d ''length'' (Some ''detailed'');
     Some \<lparr>name = v_name, category = v_category, brand = v_brand, tagline = v_tagline,
           features = v_features, seo_keywords = v_seo_keywords, tone = v_tone,
           audience = v_audience, language = v_language,
           additional_notes = v_additional_notes, length_f = v_length\<rparr>
   }"

definition ProductBrief_init :: "pydict \<Rightarrow> py_exc + ProductBrief" where
  "ProductBrief_init d =
     (case validate_ProductBrief d of None \<Rightarrow> Inl ValidationError | Some b \<Rightarrow> Inr b)"

text \<open>\<open>ProductResponse(**d)\<close>: the fields of the brief and the four of its own, all of
  them required.\<close>

definition validate_ProductResponse :: "pydict \<Rightarrow> ProductResponse option" where
  "validate_ProductResponse d = do {
     b \<leftarrow> validate_ProductBrief d;
     v_id \<leftarrow> str_field d ''id'';
     v_description \<leftarrow> str_field d ''description'';
     v_created_at \<leftarrow> datetime_field d ''created_at'';
     v_updated_at \<leftarrow> datetime_field d ''updated_at'';
     Some (ProductBrief.extend b
             (ProductResponse.fields v_id v_description v_created_at v_updated_at))
   }"

definition ProductResponse_init :: "pydict \<Rightarrow> py_exc + ProductResponse" where
  "ProductResponse_init d =
     (case validate_ProductResponse d of None \<Rightarrow> Inl ValidationError | Some p \<Rightarrow> Inr p)"

section \<open>The prompt builder\<close>

text \<open>The table \<open>length_profiles\<close> of \<open>build_generation_prompt\<close>: guidance and
  \<open>max_tokens\<close> for each length.\<close>

definition length_profiles :: "(string \<times> (string \<times> nat)) list" where
  "length_profiles =
     [(''short'',
        (''Write a tight, one-paragraph spotlight with a short features list.'', 320)),
      (''standard'',
        (''Craft a persuasive 2-3 paragraph description plus feature highlights.'', 520)),
      (''detailed'',
        (''Deliver a richly detailed narrative with multiple paragraphs, features, and ideal shopper segments.'', 780))]"

text \<open>\<open>d.get(k, default)\<close>.\<close>

definition dict_get_default :: "(string \<times> 'v) list \<Rightarrow> string \<Rightarrow> 'v \<Rightarrow> 'v" where
  "dict_get_default d k dflt = (case map_of d k of None \<Rightarrow> dflt | Some v \<Rightarrow> v)"

text \<open>\<open>length_profiles["detailed"]\<close>; the key is in the table.\<close>

definition detailed_profile :: "string \<times> nat" where
  "detailed_profile = the (map_of length_profiles ''detailed'')"

definition build_generation_prompt :: "ProductBrief \<Rightarrow> string \<times> nat" where
  \<open>build_generation_prompt brief =
     (let profile = dict_get_default length_profiles
                      (or_default (length_f brief) ''detailed'') detailed_profile;
          features_block =
            (if features brief \<noteq> []
             then join ''\<newline>'' (map (\<lambda>feature. ''- '' @ feature) (features brief))
             else ''- Highlight key differentiators.'');
          keywords =
            (if seo_keywords brief \<noteq> [] then join '', '' (seo_keywords brief)
             else ''None provided'');
          language = or_default (language brief) ''English'';
          prompt =
            ''You are an expert e-commerce copywriter crafting premium product detail page content.\<newline>''
            @ ''\<newline>''
            @ ''Product name: '' @ name brief @ ''\<newline>''
            @ ''Category: '' @ or_default (category brief) ''General'' @ ''\<newline>''
            @ ''Brand: '' @ or_default (brand brief) ''Not specified'' @ ''\<newline>''
            @ ''Tagline: '' @ or_default (tagline brief) ''Not specified'' @ ''\<newline>''
            @ ''Target audience: '' @ or_default (audience brief) ''Online shoppers'' @ ''\<newline>''
            @ ''Tone: '' @ or_default (tone brief) ''balanced'' @ ''\<newline>''
            @ ''Language: '' @ language @ ''\<newline>''
            @ ''\<newline>''
            @ ''Core product features:\<newline>'' @ features_block @ ''\<newline>''
            @ ''SEO keywords to weave naturally: '' @ keywords @ ''\<newline>''
            @ ''Additional creative direction: ''
                @ or_default (additional_notes brief) ''None'' @ ''\<newline>''
            @ ''\<newline>''
            @ fst profile @ ''\<newline>''
            @ ''Structure the copy with:\<newline>''
            @ ''- A magnetic headline hook (1 sentence)\<newline>''
            @ ''- Two to three compelling body paragraphs focused on benefits\<newline>''
            @ ''- A bullet list called "Key Features" summarising the strongest selling points\<newline>''
            @ ''- A section titled "Ideal For" describing the target customers or use cases\<newline>''
            @ ''- A closing call-to-action sentence\<newline>''
            @ ''\<newline>''
            @ ''Ensure the description is original, vivid, and conversion-focused while remaining truthful to the brief. Avoid generic filler and keep the writing in ''
                @ language @ ''.\<newline>''
      in (prompt, snd profile))\<close>

section \<open>The environment and the state of the process\<close>

text \<open>
  What the process reads from outside is an \<open>env\<close>: the variable \<open>WRITER_API_KEY\<close>,
  the provider behind \<open>client.chat.chat\<close>, the clock and the source of identifiers.
  The provider takes the client, the prompt and \<open>max_tokens\<close>; it either returns the
  text \<open>response.choices[0].message.content\<close> or an exception with a message leaves the
  \<open>try\<close> block.
\<close>

datatype provider_result = Completion string | Raises string

record env =
  WRITER_API_KEY :: "string option"
  provider :: "string \<Rightarrow> string \<Rightarrow> nat \<Rightarrow> provider_result"
  utcnow :: datetime
  uuid4 :: string

text \<open>
  What \<open>load_products\<close> can meet at the snapshot file. \<open>DATA_FILE.exists()\<close>
  returns \<open>False\<close> (\<open>FileAbsent\<close>), or raises (\<open>FileStatRaises\<close>: an
  \<open>OSError\<close> such as \<open>PermissionError\<close> for a directory that cannot be
  searched), or returns \<open>True\<close>. In the last case \<open>open\<close> followed by
  \<open>json.load\<close> raises (\<open>FileReadRaises\<close>: an \<open>OSError\<close> when the file
  cannot be opened or read, \<open>UnicodeDecodeError\<close> when it is not UTF-8,
  \<open>JSONDecodeError\<close> when it is not JSON, \<open>ValueError\<close> for an integer literal
  beyond the digit limit, \<open>RecursionError\<close> for nesting that is too deep) or returns
  the parsed value (\<open>FileJson\<close>).
\<close>

datatype file_state =
    FileAbsent
  | FileStatRaises py_exc
  | FileReadRaises py_exc
  | FileJson pyval

text \<open>
  The mutable state: the module globals \<open>products_db\<close> and \<open>writer_client\<close> (a client
  is represented by its key) and the file \<open>data/products.json\<close>. The field
  \<open>generate_calls\<close> is not in the program: it records the brief of every call of
  \<open>generate_product_description\<close>, oldest first, so that the calls can be counted.
\<close>

record world =
  products_db :: "(string \<times> pydict) list"
  data_file :: file_state
  writer_client :: "string option"
  generate_calls :: "ProductBrief list"

section \<open>The generation client\<close>

definition get_writer_client :: "env \<Rightarrow> world \<Rightarrow> (py_exc + string) \<times> world" where
  "get_writer_client e w =
     (case writer_client w of
        Some client \<Rightarrow> (Inr client, w)
      | None \<Rightarrow>
          (case WRITER_API_KEY e of
             None \<Rightarrow>
               (Inl (HTTPException 503
                  ''Writer API key not configured. Set WRITER_API_KEY to enable generation.''), w)
           | Some api_key \<Rightarrow>
               if api_key = []
               then (Inl (HTTPException 503
                  ''Writer API key not configured. Set WRITER_API_KEY to enable generation.''), w)
               else (Inr api_key, w\<lparr>writer_client := Some api_key\<rparr>)))"

text \<open>The handler \<open>except Exception as exc\<close> of \<open>generate_product_description\<close>, on
  the message \<open>str(exc)\<close>.\<close>

definition translate_exception :: "string \<Rightarrow> py_exc" where
  "translate_exception message =
     (if str_in ''api_key'' (lower message)
      then HTTPException 401 ''Invalid Writer API key provided.''
      else if str_in ''rate limit'' (lower message)
      then HTTPException 429 ''Writer API rate limit exceeded. Please retry shortly.''
      else HTTPException 500 (''Error generating description: '' @ message))"

definition generate_product_description ::
  "env \<Rightarrow> world \<Rightarrow> ProductBrief \<Rightarrow> (py_exc + string) \<times> world" where
  "generate_product_description e w brief =
     (case get_writer_client e (w\<lparr>generate_calls := generate_calls w @ [brief]\<rparr>) of
        (Inl exc, w1) \<Rightarrow> (Inl exc, w1)
      | (Inr client, w1) \<Rightarrow>
          (case build_generation_prompt brief of
             (prompt, max_tokens) \<Rightarrow>
               (case provider e client prompt max_tokens of
                  Raises message \<Rightarrow> (Inl (translate_exception message), w1)
                | Completion content \<Rightarrow>
                    (let description = strip content
                     in if description = []
                        then (Inl (translate_exception
                                ''Received empty description from Writer API''), w1)
                        else (Inr description, w1)))))"

section \<open>The product store\<close>

text \<open>Equality of dictionary keys: \<open>True\<close> and \<open>1\<close> are the same key, as are
  \<open>False\<close> and \<open>0\<close>; other values are equal when they are the same value.\<close>

fun key_num :: "pyval \<Rightarrow> int option" where
  "key_num (PBool b) = Some (if b then 1 else 0)"
| "key_num (PInt n) = Some n"
| "key_num v = None"

definition key_eq :: "pyval \<Rightarrow> pyval \<Rightarrow> bool" where
  "key_eq a b = (case (key_num a, key_num b) of (Some m, Some n) \<Rightarrow> m = n | _ \<Rightarrow> a = b)"

text \<open>A list and a dictionary have no hash: using one as a key raises \<open>TypeError\<close>.\<close>

fun hashable :: "pyval \<Rightarrow> bool" where
  "hashable (PList xs) = False"
| "hashable (PDict d) = False"
| "hashable v = True"

text \<open>\<open>d[k] = v\<close> on a dictionary whose keys are any hashable values: an equal key
  keeps its place and its first spelling.\<close>

fun key_set :: "pyval \<Rightarrow> 'v \<Rightarrow> (pyval \<times> 'v) list \<Rightarrow> (pyval \<times> 'v) list" where
  "key_set k v [] = [(k, v)]"
| "key_set k v ((k', v') # d) =
     (if key_eq k' k then (k', v) # d else (k', v') # key_set k v d)"

text \<open>
  The comprehension
  \<open>{item["id"]: item for item in raw if isinstance(item, dict) and item.get("id")}\<close>
  of \<open>load_products\<close>, one item after the other; \<open>acc\<close> is the dictionary built so
  far.
\<close>

fun load_items :: "pyval list \<Rightarrow> (pyval \<times> pyval) list \<Rightarrow> py_exc + (pyval \<times> pyval) list" where
  "load_items [] acc = Inr acc"
| "load_items (item # raw) acc =
     (case item of
        PDict d \<Rightarrow>
          (case map_of d ''id'' of
             None \<Rightarrow> load_items raw acc
           | Some v \<Rightarrow>
               if truthy v
               then (if hashable v then load_items raw (key_set v item acc) else Inl TypeError)
               else load_items raw acc)
      | _ \<Rightarrow> load_items raw acc)"

text \<open>The clause \<open>except (JSONDecodeError, OSError, KeyError): pass\<close>: an
  exception of one of the three classes is swallowed and \<open>load_products\<close> goes on to
  \<open>return {}\<close>; any other exception leaves the function.\<close>

definition caught :: "py_exc \<Rightarrow> bool" where
  "caught exc = (exc = JSONDecodeError \<or> exc = OSError \<or> exc = KeyError)"

definition handle_load :: "py_exc + (pyval \<times> pyval) list \<Rightarrow> py_exc + (pyval \<times> pyval) list" where
  "handle_load r =
     (case r of Inl exc \<Rightarrow> if caught exc then Inr [] else Inl exc | Inr d \<Rightarrow> Inr d)"

text \<open>
  \<open>load_products\<close>. The test \<open>DATA_FILE.exists()\<close> stands before the
  \<open>try\<close>, so what it raises is not handled; reading, parsing and the comprehension
  stand inside it.
\<close>

definition load_products :: "file_state \<Rightarrow> py_exc + (pyval \<times> pyval) list" where
  "load_products f =
     (case f of
        FileAbsent \<Rightarrow> Inr []
      | FileStatRaises exc \<Rightarrow> Inl exc
      | FileReadRaises exc \<Rightarrow> handle_load (Inl exc)
      | FileJson raw \<Rightarrow>
          handle_load (case raw of PList items \<Rightarrow> load_items items [] | _ \<Rightarrow> Inr []))"

text \<open>
  \<open>save_products\<close>: the values of the dictionary, each one copied and its two
  timestamps turned into strings if they are \<open>datetime\<close> objects, written as one JSON
  array. Writing the file is taken to succeed.
\<close>

definition save_entry :: "pydict \<Rightarrow> pydict" where
  "save_entry product =
     fold (\<lambda>field entry.
             case map_of entry field of
               Some (PDatetime v) \<Rightarrow> AList.update field (PStr (isoformat v)) entry
             | _ \<Rightarrow> entry)
          [''created_at'', ''updated_at''] product"

definition save_products :: "(string \<times> pydict) list \<Rightarrow> file_state" where
  "save_products products = FileJson (PList (map (\<lambda>product. PDict (save_entry product))
                                              (map snd products)))"

definition serialize_product :: "ProductResponse \<Rightarrow> pydict" where
  "serialize_product product =
     AList.update ''updated_at'' (PStr (isoformat (updated_at product)))
       (AList.update ''created_at'' (PStr (isoformat (created_at product)))
          (ProductResponse_dict product))"

section \<open>The product service\<close>

text \<open>
  The dictionary \<open>products_db\<close> of the service has strings as keys. Every operation
  takes the environment and the state and returns its result, an exception on the left,
  together with the new state.
\<close>

definition get_product_or_404 :: "(string \<times> pydict) list \<Rightarrow> string \<Rightarrow> py_exc + ProductResponse" where
  "get_product_or_404 db product_id =
     (case map_of db product_id of
        None \<Rightarrow> Inl (HTTPException 404 ''Product not found'')
      | Some product \<Rightarrow>
          if product = [] then Inl (HTTPException 404 ''Product not found'')
          else ProductResponse_init product)"

text \<open>The test \<open>description and description.strip()\<close> of \<open>create_product\<close>.\<close>

definition has_text :: "string option \<Rightarrow> bool" where
  "has_text descr =
     (case descr of None \<Rightarrow> False | Some d \<Rightarrow> d \<noteq> [] \<and> strip d \<noteq> [])"

definition create_product ::
  "env \<Rightarrow> world \<Rightarrow> ProductCreateRequest \<Rightarrow> (py_exc + ProductResponse) \<times> world" where
  "create_product e w request =
     (let brief = ProductBrief.truncate request;
          descr = req_description request
      in case (if auto_generate request \<or> \<not> has_text descr
               then generate_product_description e w brief
               else (case descr of
                       Some d \<Rightarrow> (Inr d, w)
                     | None \<Rightarrow> (Inl AttributeError, w))) of
           (Inl exc, w1) \<Rightarrow> (Inl exc, w1)
         | (Inr new_description, w1) \<Rightarrow>
             (let now = utcnow e;
                  product_id = uuid4 e;
                  product = ProductBrief.extend brief
                              (ProductResponse.fields product_id (strip new_description) now now);
                  db = AList.update product_id (serialize_product product) (products_db w1)
              in (Inr product, w1\<lparr>products_db := db, data_file := save_products db\<rparr>)))"

text \<open>The body of the loop \<open>for field, value in update_data.items()\<close> of
  \<open>update_product\<close>.\<close>

definition clearable :: "string set" where
  "clearable = {''category'', ''brand'', ''tagline'', ''audience'', ''additional_notes'',
                ''tone'', ''language'', ''length''}"

definition merge_item :: "string \<times> pyval \<Rightarrow> pydict \<Rightarrow> pydict" where
  "merge_item item updated_payload =
     (case item of
        (field, v) \<Rightarrow>
          if field \<in> {''created_at'', ''updated_at'', ''id''} then updated_payload
          else if v = PNone
          then (if field \<in> clearable then AList.update field PNone updated_payload
                else updated_payload)
          else AList.update field v updated_payload)"

text \<open>\<open>if k in update_data and update_data[k] is None: updated_payload[k] = []\<close>.\<close>

definition reset_if_null :: "pydict \<Rightarrow> string \<Rightarrow> pydict \<Rightarrow> pydict" where
  "reset_if_null update_data k updated_payload =
     (if map_of update_data k = Some PNone then AList.update k (PList []) updated_payload
      else updated_payload)"

text \<open>\<open>ProductBrief.__fields__.keys()\<close>, and the comprehension
  \<open>{field: updated_payload[field] for field in ...}\<close>, which raises \<open>KeyError\<close> on a
  key that the payload lacks.\<close>

definition brief_fields :: "string list" where
  "brief_fields = [''name'', ''category'', ''brand'', ''tagline'', ''features'',
                   ''seo_keywords'', ''tone'', ''audience'', ''language'',
                   ''additional_notes'', ''length'']"

definition project_fields :: "string list \<Rightarrow> pydict \<Rightarrow> pydict option" where
  "project_fields ks d = those (map (\<lambda>k. map_option (\<lambda>v. (k, v)) (map_of d k)) ks)"

text \<open>\<open>x.strip()\<close> on a value of a dictionary: only a string has the method.\<close>

definition strip_value :: "pyval \<Rightarrow> py_exc + string" where
  "strip_value v = (case v of PStr s \<Rightarrow> Inr (strip s) | _ \<Rightarrow> Inl AttributeError)"

text \<open>The three ways in which \<open>update_product\<close> finds the description.\<close>

definition resolve_description ::
  "env \<Rightarrow> world \<Rightarrow> pydict \<Rightarrow> pyval \<Rightarrow> pydict \<Rightarrow> (py_exc + string) \<times> world" where
  "resolve_description e w update_data regenerate updated_payload =
     (if map_of update_data ''description'' \<noteq> None
         \<and> map_of update_data ''description'' \<noteq> Some PNone
      then (case map_of update_data ''description'' of
              Some v \<Rightarrow> (strip_value v, w)
            | None \<Rightarrow> (Inl KeyError, w))
      else if truthy regenerate
      then (case project_fields brief_fields updated_payload of
              None \<Rightarrow> (Inl KeyError, w)
            | Some brief_payload \<Rightarrow>
                (case ProductBrief_init brief_payload of
                   Inl exc \<Rightarrow> (Inl exc, w)
                 | Inr brief \<Rightarrow> generate_product_description e w brief))
      else (case map_of updated_payload ''description'' of
              Some v \<Rightarrow> (strip_value v, w)
            | None \<Rightarrow> (Inl KeyError, w)))"

text \<open>The payload after the loop and the two resets.\<close>

definition merge_payload :: "pydict \<Rightarrow> pydict \<Rightarrow> pydict" where
  "merge_payload update_data payload =
     reset_if_null update_data ''seo_keywords''
       (reset_if_null update_data ''features'' (fold merge_item update_data payload))"

definition update_product ::
  "env \<Rightarrow> world \<Rightarrow> string \<Rightarrow> ProductUpdateRequest \<Rightarrow> (py_exc + ProductResponse) \<times> world" where
  "update_product e w product_id request =
     (case get_product_or_404 (products_db w) product_id of
        Inl exc \<Rightarrow> (Inl exc, w)
      | Inr existing \<Rightarrow>
          (let update_data0 = ProductUpdateRequest_dict_exclude_unset request;
               regenerate = (case map_of update_data0 ''regenerate_description'' of
                               None \<Rightarrow> PBool False | Some v \<Rightarrow> v);
               update_data = AList.delete ''regenerate_description'' update_data0;
               updated_payload = merge_payload update_data (ProductResponse_dict existing)
           in case resolve_description e w update_data regenerate updated_payload of
                (Inl exc, w1) \<Rightarrow> (Inl exc, w1)
              | (Inr new_description, w1) \<Rightarrow>
                  (let final_payload =
                         AList.update ''updated_at'' (PDatetime (utcnow e))
                           (AList.update ''description'' (PStr new_description) updated_payload)
                   in case ProductResponse_init final_payload of
                        Inl exc \<Rightarrow> (Inl exc, w1)
                      | Inr product \<Rightarrow>
                          (let db = AList.update product_id (serialize_product product)
                                      (products_db w1)
                           in (Inr product,
                               w1\<lparr>products_db := db, data_file := save_products db\<rparr>)))))"

definition delete_product :: "world \<Rightarrow> string \<Rightarrow> (py_exc + unit) \<times> world" where
  "delete_product w product_id =
     (if map_of (products_db w) product_id = None
      then (Inl (HTTPException 404 ''Product not found''), w)
      else (let db = AList.delete product_id (products_db w)
            in (Inr (), w\<lparr>products_db := db, data_file := save_products db\<rparr>)))"

section \<open>Notions used to state the properties\<close>

text \<open>
  An item of the snapshot that \<open>load_products\<close> keeps is a dictionary whose \<open>id\<close>
  is present and truthy; \<open>id_of\<close> is that \<open>id\<close>.
\<close>

definition has_id :: "pyval \<Rightarrow> bool" where
  "has_id item =
     (case item of
        PDict d \<Rightarrow> (case map_of d ''id'' of None \<Rightarrow> False | Some v \<Rightarrow> truthy v)
      | _ \<Rightarrow> False)"

definition id_of :: "pyval \<Rightarrow> pyval" where
  "id_of item =
     (case item of
        PDict d \<Rightarrow> (case map_of d ''id'' of None \<Rightarrow> PNone | Some v \<Rightarrow> v)
      | _ \<Rightarrow> PNone)"

text \<open>
  The wording of the specification for the snapshot: a well-formed sequence of record
  objects, each of which contains a non-empty id.
\<close>

definition snapshot_well_formed :: "file_state \<Rightarrow> bool" where
  "snapshot_well_formed f =
     (case f of
        FileJson (PList items) \<Rightarrow> list_all has_id items
      | _ \<Rightarrow> False)"

text \<open>
  The outcome of the merge of \<open>update_product\<close>, field by field. A required field
  takes a value that the request gives and is kept otherwise; a clearable field is kept
  when the request leaves it out, cleared when the request sets it to \<open>null\<close>, and
  replaced when the request gives a value; a sequence is reset to the empty sequence by
  \<open>null\<close>. \<open>merged_brief\<close> is the brief of the merged fields, and
  \<open>updated_product\<close> the product that an update returns for a given description.
\<close>

definition merge_required :: "'a option option \<Rightarrow> 'a \<Rightarrow> 'a" where
  "merge_required u old = (case u of Some (Some v) \<Rightarrow> v | _ \<Rightarrow> old)"

definition merge_clearable :: "'a option option \<Rightarrow> 'a option \<Rightarrow> 'a option" where
  "merge_clearable u old = (case u of None \<Rightarrow> old | Some None \<Rightarrow> None | Some (Some v) \<Rightarrow> Some v)"

definition merge_sequence :: "'a list option option \<Rightarrow> 'a list \<Rightarrow> 'a list" where
  "merge_sequence u old = (case u of None \<Rightarrow> old | Some None \<Rightarrow> [] | Some (Some v) \<Rightarrow> v)"

definition merged_brief :: "ProductUpdateRequest \<Rightarrow> ProductResponse \<Rightarrow> ProductBrief" where
  "merged_brief r existing =
     \<lparr>name = merge_required (upd_name r) (name existing),
      category = merge_clearable (upd_category r) (category existing),
      brand = merge_clearable (upd_brand r) (brand existing),
      tagline = merge_clearable (upd_tagline r) (tagline existing),
      features = merge_sequence (upd_features r) (features existing),
      seo_keywords = merge_sequence (upd_seo_keywords r) (seo_keywords existing),
      tone = merge_clearable (upd_tone r) (tone existing),
      audience = merge_clearable (upd_audience r) (audience existing),
      language = merge_clearable (upd_language r) (language existing),
      additional_notes = merge_clearable (upd_additional_notes r) (additional_notes existing),
      length_f = merge_clearable (upd_length r) (length_f existing)\<rparr>"

definition updated_product ::
  "env \<Rightarrow> ProductUpdateRequest \<Rightarrow> ProductResponse \<Rightarrow> string \<Rightarrow> ProductResponse" where
  "updated_product e r existing new_description =
     ProductBrief.extend (merged_brief r existing)
       (ProductResponse.fields (id_f existing) new_description (created_at existing) (utcnow e))"

section \<open>Example inputs\<close>

text \<open>Concrete environments, states and requests, used where a property is shown on
  an input.\<close>

definition example_time :: datetime where
  "example_time = \<lparr>year = 2024, month = 1, day = 2, hour = 3, minute = 4, second = 5,
                    microsecond = 0\<rparr>"

definition example_later :: datetime where
  "example_later = \<lparr>year = 2024, month = 1, day = 2, hour = 3, minute = 4, second = 6,
                     microsecond = 250\<rparr>"

definition example_env :: env where
  "example_env = \<lparr>WRITER_API_KEY = Some ''k'',
                   provider = (\<lambda>client prompt max_tokens. Completion '' Generated text ''),
                   utcnow = example_later, uuid4 = ''id2''\<rparr>"

definition failing_env :: env where
  "failing_env = \<lparr>WRITER_API_KEY = Some ''k'',
                   provider = (\<lambda>client prompt max_tokens. Raises ''Rate limit reached''),
                   utcnow = example_later, uuid4 = ''id2''\<rparr>"

definition example_product :: ProductResponse where
  "example_product =
     \<lparr>name = ''Lamp'', category = Some ''Lighting'', brand = None, tagline = None,
      features = [''Dimmable''], seo_keywords = [], tone = Some ''balanced'', audience = None,
      language = Some ''English'', additional_notes = None, length_f = Some ''detailed'',
      id_f = ''id1'', description = ''Bright light.'', created_at = example_time,
      updated_at = example_time\<rparr>"

definition example_world :: world where
  "example_world =
     \<lparr>products_db = [(''id1'', serialize_product example_product)],
      data_file = save_products [(''id1'', serialize_product example_product)],
      writer_client = None, generate_calls = []\<rparr>"



definition no_change :: ProductUpdateRequest where
  "no_change =
     \<lparr>upd_name = None, upd_category = None, upd_brand = None, upd_tagline = None,
      upd_features = None, upd_seo_keywords = None, upd_tone = None, upd_audience = None,
      upd_language = None, upd_additional_notes = None, upd_length = None,
      upd_description = None, upd_regenerate_description = None\<rparr>"

definition example_request :: ProductCreateRequest where
  "example_request =
     \<lparr>name = ''Lamp'', category = None, brand = None, tagline = None, features = [],
      seo_keywords = [], tone = Some ''balanced'', audience = None,
      language = Some ''English'', additional_notes = None, length_f = Some ''detailed'',
      req_description = Some '' Bright light. '', auto_generate = False\<rparr>"

definition merge_request :: ProductUpdateRequest where
  "merge_request = no_change\<lparr>upd_category := Some None, upd_features := Some None,
                              upd_tone := Some (Some ''luxurious'')\<rparr>"

definition blank_description_request :: ProductUpdateRequest where
  "blank_description_request = no_change\<lparr>upd_description := Some (Some ''   '')\<rparr>"


definition regenerate_request :: ProductUpdateRequest where
  "regenerate_request = no_change\<lparr>upd_tone := Some (Some ''luxurious''),
                                   upd_regenerate_description := Some (Some True)\<rparr>"


text \<open>The product that \<open>create_product\<close> builds for a given description.\<close>

definition created_product :: "env \<Rightarrow> ProductCreateRequest \<Rightarrow> string \<Rightarrow> ProductResponse" where
  "created_product e request new_description =
     ProductBrief.extend (ProductBrief.truncate request)
       (ProductResponse.fields (uuid4 e) (strip new_description) (utcnow e) (utcnow e))"

definition auto_request :: ProductCreateRequest where
  "auto_request = example_request\<lparr>auto_generate := True\<rparr>"


section \<open>Properties of the prompt builder\<close>

lemma detailed_profile_tokens: "snd detailed_profile = 780"
  by (simp add: detailed_profile_def length_profiles_def)

lemma max_tokens_by_length:
  "snd (build_generation_prompt brief) =
     (if length_f brief = Some ''short'' then 320
      else if length_f brief = Some ''standard'' then 520
      else 780)"
  by (simp add: build_generation_prompt_def Let_def dict_get_default_def or_default_def
        length_profiles_def detailed_profile_def split: option.split)

text \<open>
  Claim C8. The prompt builder is a function of the brief alone: it reads no state, so two
  equal briefs give the same prompt text and the same token budget. The token budget is one
  of 320, 520 and 780: 320 for the length \<open>short\<close>, 520 for \<open>standard\<close>, 780 for
  \<open>detailed\<close>, and 780 as well for a missing length and for any other length.
\<close>

theorem build_generation_prompt_budget:
  "(b1 = b2 \<longrightarrow> build_generation_prompt b1 = build_generation_prompt b2)
   \<and> snd (build_generation_prompt brief) \<in> {320, 520, 780}
   \<and> (length_f brief = Some ''short'' \<longrightarrow> snd (build_generation_prompt brief) = 320)
   \<and> (length_f brief = Some ''standard'' \<longrightarrow> snd (build_generation_prompt brief) = 520)
   \<and> (length_f brief = Some ''detailed'' \<longrightarrow> snd (build_generation_prompt brief) = 780)
   \<and> (length_f brief = None \<longrightarrow> snd (build_generation_prompt brief) = 780)
   \<and> (length_f brief \<notin> {Some ''short'', Some ''standard'', Some ''detailed''}
        \<longrightarrow> snd (build_generation_prompt brief) = 780)"
  by (simp add: max_tokens_by_length)

theorem build_generation_prompt_budget_witness:
  "snd (build_generation_prompt
     \<lparr>name = ''Lamp'', category = None, brand = None, tagline = None, features = [],
      seo_keywords = [], tone = Some ''balanced'', audience = None,
      language = Some ''English'', additional_notes = None, length_f = Some ''short''\<rparr>) = 320
   \<and> snd (build_generation_prompt
     \<lparr>name = ''Lamp'', category = None, brand = None, tagline = None, features = [],
      seo_keywords = [], tone = Some ''balanced'', audience = None,
      language = Some ''English'', additional_notes = None, length_f = Some ''huge''\<rparr>) = 780"
  using build_generation_prompt_budget
    [of "\<lparr>name = ''Lamp'', category = None, brand = None, tagline = None, features = [],
      seo_keywords = [], tone = Some ''balanced'', audience = None,
      language = Some ''English'', additional_notes = None, length_f = Some ''short''\<rparr>"
        "\<lparr>name = ''Lamp'', category = None, brand = None, tagline = None, features = [],
      seo_keywords = [], tone = Some ''balanced'', audience = None,
      language = Some ''English'', additional_notes = None, length_f = Some ''short''\<rparr>"
        "\<lparr>name = ''Lamp'', category = None, brand = None, tagline = None, features = [],
      seo_keywords = [], tone = Some ''balanced'', audience = None,
      language = Some ''English'', additional_notes = None, length_f = Some ''short''\<rparr>"]
    build_generation_prompt_budget
    [of "\<lparr>name = ''Lamp'', category = None, brand = None, tagline = None, features = [],
      seo_keywords = [], tone = Some ''balanced'', audience = None,
      language = Some ''English'', additional_notes = None, length_f = Some ''huge''\<rparr>"
        "\<lparr>name = ''Lamp'', category = None, brand = None, tagline = None, features = [],
      seo_keywords = [], tone = Some ''balanced'', audience = None,
      language = Some ''English'', additional_notes = None, length_f = Some ''huge''\<rparr>"
        "\<lparr>name = ''Lamp'', category = None, brand = None, tagline = None, features = [],
      seo_keywords = [], tone = Some ''balanced'', audience = None,
      language = Some ''English'', additional_notes = None, length_f = Some ''huge''\<rparr>"]
  by simp

section \<open>Properties of the string helpers\<close>

text \<open>\<open>str_in\<close> is the search for a contiguous block.\<close>

lemma is_prefix_iff: "is_prefix n h \<longleftrightarrow> (\<exists>s. h = n @ s)"
  by (induction n h rule: is_prefix.induct) auto

lemma str_in_iff: "str_in n h \<longleftrightarrow> (\<exists>p s. h = p @ n @ s)"
proof (induction h)
  case Nil
  then show ?case by auto
next
  case (Cons c cs)
  show ?case
  proof
    assume "str_in n (c # cs)"
    then consider "is_prefix n (c # cs)" | "str_in n cs" by auto
    then show "\<exists>p s. c # cs = p @ n @ s"
    proof cases
      case 1
      then obtain s where "c # cs = n @ s" by (auto simp: is_prefix_iff)
      then have "c # cs = [] @ n @ s" by simp
      then show ?thesis by blast
    next
      case 2
      then obtain p s where "cs = p @ n @ s" using Cons.IH by auto
      then have "c # cs = (c # p) @ n @ s" by simp
      then show ?thesis by blast
    qed
  next
    assume "\<exists>p s. c # cs = p @ n @ s"
    then obtain p s where ps: "c # cs = p @ n @ s" by blast
    show "str_in n (c # cs)"
    proof (cases p)
      case Nil
      with ps have "is_prefix n (c # cs)" by (auto simp: is_prefix_iff)
      then show ?thesis by simp
    next
      case (Cons a p')
      with ps have "cs = p' @ n @ s" by simp
      then have "str_in n cs" using Cons.IH by blast
      then show ?thesis by simp
    qed
  qed
qed

section \<open>Properties of the generation client\<close>

lemma get_writer_client_log:
  "fst (get_writer_client e (w\<lparr>generate_calls := cs\<rparr>)) = fst (get_writer_client e w)"
  by (simp add: get_writer_client_def split: option.split)

lemma get_writer_client_world:
  "products_db (snd (get_writer_client e w)) = products_db w
   \<and> data_file (snd (get_writer_client e w)) = data_file w
   \<and> generate_calls (snd (get_writer_client e w)) = generate_calls w"
  by (simp add: get_writer_client_def split: option.split)

lemma empty_message_translation:
  "translate_exception ''Received empty description from Writer API'' =
     HTTPException 500 ''Error generating description: Received empty description from Writer API''"
  by (simp add: translate_exception_def lower_def lower_char_def)

lemma generate_world:
  "products_db (snd (generate_product_description e w brief)) = products_db w
   \<and> data_file (snd (generate_product_description e w brief)) = data_file w
   \<and> generate_calls (snd (generate_product_description e w brief)) = generate_calls w @ [brief]"
proof -
  let ?w0 = "w\<lparr>generate_calls := generate_calls w @ [brief]\<rparr>"
  obtain r w1 where g: "get_writer_client e ?w0 = (r, w1)" by (cases "get_writer_client e ?w0")
  have w1: "products_db w1 = products_db w \<and> data_file w1 = data_file w
            \<and> generate_calls w1 = generate_calls w @ [brief]"
    using get_writer_client_world [of e ?w0] g by simp
  show ?thesis
    using w1 g
    by (simp add: generate_product_description_def Let_def
          split: sum.split prod.split provider_result.split)
qed

lemma strip_blank_example: "strip ''   '' = []"
  by (simp add: strip_def lstrip_def rstrip_def isspace_def)

lemma lower_example: "lower ''Invalid API_KEY'' = ''invalid api_key''"
  by code_simp

lemma lower_example_rate: "lower ''Rate Limit reached'' = ''rate limit reached''"
  by code_simp

text \<open>
  Claim C7. A failure of the provider inside \<open>generate_product_description\<close> is
  classified by its message in lower case: a message that contains \<open>api_key\<close> gives
  status 401; otherwise one that contains \<open>rate limit\<close> gives 429; any other gives 500
  with the message. A completion that is blank after trimming gives 500 (the empty-result
  error). When no client exists yet and \<open>WRITER_API_KEY\<close> is unset or empty, the call
  gives 503.
\<close>

theorem generate_error_classification:
  "(fst (get_writer_client e w) = Inr client
      \<and> provider e client (fst (build_generation_prompt brief))
            (snd (build_generation_prompt brief)) = Raises message
     \<longrightarrow> fst (generate_product_description e w brief) =
           Inl (if str_in ''api_key'' (lower message)
                then HTTPException 401 ''Invalid Writer API key provided.''
                else if str_in ''rate limit'' (lower message)
                then HTTPException 429 ''Writer API rate limit exceeded. Please retry shortly.''
                else HTTPException 500 (''Error generating description: '' @ message)))
   \<and> (fst (get_writer_client e w) = Inr client
      \<and> provider e client (fst (build_generation_prompt brief))
            (snd (build_generation_prompt brief)) = Completion content
      \<and> strip content = []
     \<longrightarrow> fst (generate_product_description e w brief) =
           Inl (HTTPException 500
                  ''Error generating description: Received empty description from Writer API''))
   \<and> (writer_client w = None \<and> (WRITER_API_KEY e = None \<or> WRITER_API_KEY e = Some [])
     \<longrightarrow> fst (generate_product_description e w brief) =
           Inl (HTTPException 503
                  ''Writer API key not configured. Set WRITER_API_KEY to enable generation.''))"
proof -
  let ?w0 = "w\<lparr>generate_calls := generate_calls w @ [brief]\<rparr>"
  obtain r w1 where g: "get_writer_client e ?w0 = (r, w1)" by (cases "get_writer_client e ?w0")
  have r: "r = fst (get_writer_client e w)"
    using get_writer_client_log [where e = e and w = w and cs = "generate_calls w @ [brief]"] g
    by simp
  obtain prompt max_tokens where b: "build_generation_prompt brief = (prompt, max_tokens)"
    by (cases "build_generation_prompt brief")
  have c1: "fst (get_writer_client e w) = Inr client
      \<and> provider e client prompt max_tokens = Raises message
     \<longrightarrow> fst (generate_product_description e w brief) = Inl (translate_exception message)"
    using g r b by (simp add: generate_product_description_def)
  have c2: "fst (get_writer_client e w) = Inr client
      \<and> provider e client prompt max_tokens = Completion content \<and> strip content = []
     \<longrightarrow> fst (generate_product_description e w brief) =
           Inl (translate_exception ''Received empty description from Writer API'')"
    using g r b by (simp add: generate_product_description_def Let_def)
  have c3: "writer_client w = None \<and> (WRITER_API_KEY e = None \<or> WRITER_API_KEY e = Some [])
     \<longrightarrow> fst (generate_product_description e w brief) =
           Inl (HTTPException 503
                  ''Writer API key not configured. Set WRITER_API_KEY to enable generation.'')"
    by (auto simp add: generate_product_description_def get_writer_client_def)
  show ?thesis
    using c1 c2 c3 b by (simp add: empty_message_translation) (simp add: translate_exception_def)
qed

theorem generate_error_classification_witness:
  "fst (generate_product_description
         \<lparr>WRITER_API_KEY = Some ''k'', provider = (\<lambda>c p n. Raises ''Invalid API_KEY''),
          utcnow = \<lparr>year = 2024, month = 1, day = 2, hour = 3, minute = 4, second = 5,
                     microsecond = 0\<rparr>,
          uuid4 = ''id1''\<rparr>
         \<lparr>products_db = [], data_file = FileAbsent, writer_client = None, generate_calls = []\<rparr>
         \<lparr>name = ''Lamp'', category = None, brand = None, tagline = None, features = [],
          seo_keywords = [], tone = None, audience = None, language = None,
          additional_notes = None, length_f = None\<rparr>)
     = Inl (HTTPException 401 ''Invalid Writer API key provided.'')
   \<and> fst (generate_product_description
         \<lparr>WRITER_API_KEY = Some ''k'', provider = (\<lambda>c p n. Raises ''Rate Limit reached''),
          utcnow = \<lparr>year = 2024, month = 1, day = 2, hour = 3, minute = 4, second = 5,
                     microsecond = 0\<rparr>,
          uuid4 = ''id1''\<rparr>
         \<lparr>products_db = [], data_file = FileAbsent, writer_client = None, generate_calls = []\<rparr>
         \<lparr>name = ''Lamp'', category = None, brand = None, tagline = None, features = [],
          seo_keywords = [], tone = None, audience = None, language = None,
          additional_notes = None, length_f = None\<rparr>)
     = Inl (HTTPException 429 ''Writer API rate limit exceeded. Please retry shortly.'')
   \<and> fst (generate_product_description
         \<lparr>WRITER_API_KEY = Some ''k'', provider = (\<lambda>c p n. Completion ''   ''),
          utcnow = \<lparr>year = 2024, month = 1, day = 2, hour = 3, minute = 4, second = 5,
                     microsecond = 0\<rparr>,
          uuid4 = ''id1''\<rparr>
         \<lparr>products_db = [], data_file = FileAbsent, writer_client = None, generate_calls = []\<rparr>
         \<lparr>name = ''Lamp'', category = None, brand = None, tagline = None, features = [],
          seo_keywords = [], tone = None, audience = None, language = None,
          additional_notes = None, length_f = None\<rparr>)
     = Inl (HTTPException 500
              ''Error generating description: Received empty description from Writer API'')
   \<and> fst (generate_product_description
         \<lparr>WRITER_API_KEY = None, provider = (\<lambda>c p n. Completion ''text''),
          utcnow = \<lparr>year = 2024, month = 1, day = 2, hour = 3, minute = 4, second = 5,
                     microsecond = 0\<rparr>,
          uuid4 = ''id1''\<rparr>
         \<lparr>products_db = [], data_file = FileAbsent, writer_client = None, generate_calls = []\<rparr>
         \<lparr>name = ''Lamp'', category = None, brand = None, tagline = None, features = [],
          seo_keywords = [], tone = None, audience = None, language = None,
          additional_notes = None, length_f = None\<rparr>)
     = Inl (HTTPException 503
              ''Writer API key not configured. Set WRITER_API_KEY to enable generation.'')"
  using generate_error_classification
    [of "\<lparr>WRITER_API_KEY = Some ''k'', provider = (\<lambda>c p n. Raises ''Invalid API_KEY''),
          utcnow = \<lparr>year = 2024, month = 1, day = 2, hour = 3, minute = 4, second = 5,
                     microsecond = 0\<rparr>,
          uuid4 = ''id1''\<rparr>"
        "\<lparr>products_db = [], data_file = FileAbsent, writer_client = None, generate_calls = []\<rparr>"
        "''k''"
        "\<lparr>name = ''Lamp'', category = None, brand = None, tagline = None, features = [],
          seo_keywords = [], tone = None, audience = None, language = None,
          additional_notes = None, length_f = None\<rparr>"
        "''Invalid API_KEY''" "[]"]
    generate_error_classification
    [of "\<lparr>WRITER_API_KEY = Some ''k'', provider = (\<lambda>c p n. Raises ''Rate Limit reached''),
          utcnow = \<lparr>year = 2024, month = 1, day = 2, hour = 3, minute = 4, second = 5,
                     microsecond = 0\<rparr>,
          uuid4 = ''id1''\<rparr>"
        "\<lparr>products_db = [], data_file = FileAbsent, writer_client = None, generate_calls = []\<rparr>"
        "''k''"
        "\<lparr>name = ''Lamp'', category = None, brand = None, tagline = None, features = [],
          seo_keywords = [], tone = None, audience = None, language = None,
          additional_notes = None, length_f = None\<rparr>"
        "''Rate Limit reached''" "[]"]
    generate_error_classification
    [of "\<lparr>WRITER_API_KEY = Some ''k'', provider = (\<lambda>c p n. Completion ''   ''),
          utcnow = \<lparr>year = 2024, month = 1, day = 2, hour = 3, minute = 4, second = 5,
                     microsecond = 0\<rparr>,
          uuid4 = ''id1''\<rparr>"
        "\<lparr>products_db = [], data_file = FileAbsent, writer_client = None, generate_calls = []\<rparr>"
        "''k''"
        "\<lparr>name = ''Lamp'', category = None, brand = None, tagline = None, features = [],
          seo_keywords = [], tone = None, audience = None, language = None,
          additional_notes = None, length_f = None\<rparr>"
        "[]" "''   ''"]
    generate_error_classification
    [of "\<lparr>WRITER_API_KEY = None, provider = (\<lambda>c p n. Completion ''text''),
          utcnow = \<lparr>year = 2024, month = 1, day = 2, hour = 3, minute = 4, second = 5,
                     microsecond = 0\<rparr>,
          uuid4 = ''id1''\<rparr>"
        "\<lparr>products_db = [], data_file = FileAbsent, writer_client = None, generate_calls = []\<rparr>"
        "''k''"
        "\<lparr>name = ''Lamp'', category = None, brand = None, tagline = None, features = [],
          seo_keywords = [], tone = None, audience = None, language = None,
          additional_notes = None, length_f = None\<rparr>"
        "[]" "[]"]
  by (simp add: get_writer_client_def lower_example lower_example_rate strip_blank_example)

section \<open>Properties of the store\<close>

lemma load_items_filtered:
  "(\<forall>item \<in> set items. has_id item \<longrightarrow> hashable (id_of item)) \<Longrightarrow>
   load_items items acc =
     Inr (fold (\<lambda>item d. key_set (id_of item) item d) (filter has_id items) acc)"
proof (induction items arbitrary: acc)
  case Nil
  then show ?case by simp
next
  case (Cons item items)
  then have rest: "\<And>acc'. load_items items acc' =
      Inr (fold (\<lambda>item d. key_set (id_of item) item d) (filter has_id items) acc')"
    by simp
  show ?case
  proof (cases "has_id item")
    case True
    then obtain d v where item: "item = PDict d" and v: "map_of d ''id'' = Some v" and t: "truthy v"
      by (auto simp: has_id_def split: pyval.splits option.splits)
    have idv: "id_of item = v" using item v by (simp add: id_of_def)
    have "hashable (id_of item)" using Cons.prems True by simp
    then have "load_items (item # items) acc = load_items items (key_set v item acc)"
      using item v t idv by simp
    then show ?thesis using True idv rest by simp
  next
    case False
    then have "load_items (item # items) acc = load_items items acc"
      by (auto simp: has_id_def split: pyval.splits option.splits)
    then show ?thesis using False rest by simp
  qed
qed

text \<open>
  Claim C6, as stated, fails. The snapshot below is not a sequence of record objects with
  ids (its second element is a number), and \<open>load_products\<close> does not return the
  empty dictionary: it skips the number and keeps the record.
\<close>

theorem load_products_counterexample:
  "\<not> snapshot_well_formed (FileJson (PList [PDict [(''id'', PStr ''a'')], PInt 5]))
   \<and> load_products (FileJson (PList [PDict [(''id'', PStr ''a'')], PInt 5]))
       = Inr [(PStr ''a'', PDict [(''id'', PStr ''a'')])]
   \<and> load_products (FileJson (PList [PDict [(''id'', PStr ''a'')], PInt 5])) \<noteq> Inr []"
  by (simp add: snapshot_well_formed_def has_id_def load_products_def handle_load_def)

text \<open>
  The cases in which \<open>load_products\<close> raises: the existence test raises, reading or
  parsing raises an exception that the \<open>except\<close> clause does not name, or an \<open>id\<close>
  that is kept cannot be a key.
\<close>

lemma load_products_raises:
  "load_products (FileStatRaises exc) = Inl exc"
  "\<not> caught exc \<Longrightarrow> load_products (FileReadRaises exc) = Inl exc"
  "load_products (FileStatRaises OSError) = Inl OSError"
  "load_products (FileReadRaises UnicodeDecodeError) = Inl UnicodeDecodeError"
  "load_products (FileReadRaises ValueError) = Inl ValueError"
  "load_products (FileReadRaises RecursionError) = Inl RecursionError"
  "load_products (FileJson (PList [PDict [(''id'', PList [PInt 1])]])) = Inl TypeError"
  by (simp_all add: load_products_def handle_load_def caught_def)

lemma key_set_not_empty: "key_set k v d \<noteq> []"
  by (cases d) (auto split: if_splits)

lemma fold_key_set_not_empty:
  "d \<noteq> [] \<Longrightarrow> fold (\<lambda>item d. key_set (id_of item) item d) xs d \<noteq> []"
  by (induction xs arbitrary: d) (simp_all add: key_set_not_empty)

lemma fold_key_set_kept:
  "xs \<noteq> [] \<Longrightarrow> fold (\<lambda>item d. key_set (id_of item) item d) xs [] \<noteq> []"
  by (cases xs) (simp_all add: fold_key_set_not_empty key_set_not_empty)

text \<open>
  Claim C6, amended. \<open>load_products\<close> returns the empty dictionary when the file does
  not exist, when opening or reading it raises an \<open>OSError\<close>, when \<open>json.load\<close>
  raises \<open>JSONDecodeError\<close>, and when the parsed value is not an array. Of an array
  whose kept ids can be keys it skips the elements that are not objects and the objects
  whose \<open>id\<close> is missing or falsy, and returns the others under their \<open>id\<close>, in the
  order of the file, a later element taking the place of an earlier one with an equal
  \<open>id\<close>; so the result is empty exactly when no element is kept. Nothing is
  stated for the cases in which \<open>load_products\<close> raises.
\<close>

theorem load_products_skips:
  "load_products FileAbsent = Inr []
   \<and> load_products (FileReadRaises OSError) = Inr []
   \<and> load_products (FileReadRaises JSONDecodeError) = Inr []
   \<and> ((\<forall>items. raw \<noteq> PList items) \<longrightarrow> load_products (FileJson raw) = Inr [])
   \<and> ((\<forall>item \<in> set items. has_id item \<longrightarrow> hashable (id_of item)) \<longrightarrow>
        load_products (FileJson (PList items)) =
          Inr (fold (\<lambda>item d. key_set (id_of item) item d) (filter has_id items) []))
   \<and> ((\<forall>item \<in> set items. \<not> has_id item) \<longrightarrow>
        load_products (FileJson (PList items)) = Inr [])
   \<and> ((\<forall>item \<in> set items. has_id item \<longrightarrow> hashable (id_of item))
        \<and> (\<exists>item \<in> set items. has_id item) \<longrightarrow>
        load_products (FileJson (PList items)) \<noteq> Inr [])"
proof -
  have a: "(\<forall>items. raw \<noteq> PList items) \<longrightarrow> load_products (FileJson raw) = Inr []"
    by (cases raw) (simp_all add: load_products_def handle_load_def)
  have b: "(\<forall>item \<in> set items. has_id item \<longrightarrow> hashable (id_of item)) \<longrightarrow>
        load_products (FileJson (PList items)) =
          Inr (fold (\<lambda>item d. key_set (id_of item) item d) (filter has_id items) [])"
    by (simp add: load_products_def handle_load_def load_items_filtered)
  have c: "(\<forall>item \<in> set items. \<not> has_id item) \<longrightarrow>
        load_products (FileJson (PList items)) = Inr []"
  proof
    assume n: "\<forall>item \<in> set items. \<not> has_id item"
    then have "filter has_id items = []" by (simp add: filter_empty_conv)
    moreover have "\<forall>item \<in> set items. has_id item \<longrightarrow> hashable (id_of item)" using n by simp
    ultimately show "load_products (FileJson (PList items)) = Inr []" using b by simp
  qed
  have d: "(\<forall>item \<in> set items. has_id item \<longrightarrow> hashable (id_of item))
        \<and> (\<exists>item \<in> set items. has_id item) \<longrightarrow>
        load_products (FileJson (PList items)) \<noteq> Inr []"
  proof
    assume h: "(\<forall>item \<in> set items. has_id item \<longrightarrow> hashable (id_of item))
        \<and> (\<exists>item \<in> set items. has_id item)"
    then have "filter has_id items \<noteq> []" by (auto simp: filter_empty_conv)
    then have "fold (\<lambda>item d. key_set (id_of item) item d) (filter has_id items) [] \<noteq> []"
      by (rule fold_key_set_kept)
    then show "load_products (FileJson (PList items)) \<noteq> Inr []" using b h by simp
  qed
  show ?thesis using a b c d by (simp add: load_products_def handle_load_def caught_def)
qed

theorem load_products_skips_witness:
  "load_products (FileJson (PInt 3)) = Inr []
   \<and> load_products (FileJson (PList [PDict [(''id'', PStr ''a'')], PInt 5, PDict [(''id'', PStr [])],
                                       PDict [(''id'', PStr ''b''), (''name'', PStr ''n'')]]))
      = Inr [(PStr ''a'', PDict [(''id'', PStr ''a'')]),
             (PStr ''b'', PDict [(''id'', PStr ''b''), (''name'', PStr ''n'')])]
   \<and> load_products (FileJson (PList [PInt 5, PDict [(''name'', PStr ''n'')]])) = Inr []"
  using load_products_skips [of "PInt 3" "[PDict [(''id'', PStr ''a'')], PInt 5, PDict [(''id'', PStr [])],
                                       PDict [(''id'', PStr ''b''), (''name'', PStr ''n'')]]"]
    load_products_skips [of "PInt 3" "[PInt 5, PDict [(''name'', PStr ''n'')]]"]
  by (simp add: has_id_def id_of_def key_eq_def)

section \<open>Properties of the update: the dictionary of the request\<close>

lemma map_of_set_field:
  "map_of (set_field k c x) k' =
     (if k' = k then (case x of None \<Rightarrow> None | Some None \<Rightarrow> Some PNone | Some (Some v) \<Rightarrow> Some (c v))
      else None)"
  by (simp add: set_field_def split: option.split)

lemma map_of_set_field_append:
  "map_of (set_field k c x @ B) k' =
     (if k' = k \<and> x \<noteq> None
      then (case x of None \<Rightarrow> None | Some None \<Rightarrow> Some PNone | Some (Some v) \<Rightarrow> Some (c v))
      else map_of B k')"
  by (simp add: set_field_def split: option.split)

lemma keys_set_field: "fst ` set (set_field k c x) \<subseteq> {k}"
  by (auto simp: set_field_def split: option.splits)

lemma distinct_set_field: "distinct (map fst (set_field k c x))"
  by (simp add: set_field_def split: option.split)

lemma distinct_keys_step:
  "distinct (map fst B) \<and> fst ` set B \<subseteq> set K \<Longrightarrow> k \<notin> set K \<Longrightarrow>
   distinct (map fst (set_field k c x @ B)) \<and> fst ` set (set_field k c x @ B) \<subseteq> set (k # K)"
  using keys_set_field [of k c x] distinct_set_field [of k c x]
  by (auto simp: image_Un)

lemma distinct_keys_base:
  "distinct (map fst (set_field k c x)) \<and> fst ` set (set_field k c x) \<subseteq> set [k]"
  using keys_set_field [of k c x] distinct_set_field [of k c x] by simp

lemma update_data_distinct:
  "distinct (map fst (ProductUpdateRequest_dict_exclude_unset r))"
proof -
  have "distinct (map fst (ProductUpdateRequest_dict_exclude_unset r))
        \<and> fst ` set (ProductUpdateRequest_dict_exclude_unset r)
            \<subseteq> set [''name'', ''category'', ''brand'', ''tagline'', ''features'',
                   ''seo_keywords'', ''tone'', ''audience'', ''language'',
                   ''additional_notes'', ''length'', ''description'',
                   ''regenerate_description'']"
    unfolding ProductUpdateRequest_dict_exclude_unset_def
    by (intro distinct_keys_step distinct_keys_base) simp_all
  then show ?thesis by simp
qed

lemma update_data0_name:
  "map_of (ProductUpdateRequest_dict_exclude_unset r) ''name'' =
     (case upd_name r of None \<Rightarrow> None | Some None \<Rightarrow> Some PNone | Some (Some v) \<Rightarrow> Some (PStr v))"
  by (cases "upd_name r")
     (simp_all add: ProductUpdateRequest_dict_exclude_unset_def map_of_set_field
        map_of_set_field_append del: map_of_append split: option.split)

lemma update_data0_category:
  "map_of (ProductUpdateRequest_dict_exclude_unset r) ''category'' =
     (case upd_category r of None \<Rightarrow> None | Some None \<Rightarrow> Some PNone | Some (Some v) \<Rightarrow> Some (PStr v))"
  by (cases "upd_category r")
     (simp_all add: ProductUpdateRequest_dict_exclude_unset_def map_of_set_field
        map_of_set_field_append del: map_of_append split: option.split)

lemma update_data0_brand:
  "map_of (ProductUpdateRequest_dict_exclude_unset r) ''brand'' =
     (case upd_brand r of None \<Rightarrow> None | Some None \<Rightarrow> Some PNone | Some (Some v) \<Rightarrow> Some (PStr v))"
  by (cases "upd_brand r")
     (simp_all add: ProductUpdateRequest_dict_exclude_unset_def map_of_set_field
        map_of_set_field_append del: map_of_append split: option.split)

lemma update_data0_tagline:
  "map_of (ProductUpdateRequest_dict_exclude_unset r) ''tagline'' =
     (case upd_tagline r of None \<Rightarrow> None | Some None \<Rightarrow> Some PNone | Some (Some v) \<Rightarrow> Some (PStr v))"
  by (cases "upd_tagline r")
     (simp_all add: ProductUpdateRequest_dict_exclude_unset_def map_of_set_field
        map_of_set_field_append del: map_of_append split: option.split)

lemma update_data0_features:
  "map_of (ProductUpdateRequest_dict_exclude_unset r) ''features'' =
     (case upd_features r of None \<Rightarrow> None | Some None \<Rightarrow> Some PNone | Some (Some v) \<Rightarrow> Some (str_list v))"
  by (cases "upd_features r")
     (simp_all add: ProductUpdateRequest_dict_exclude_unset_def map_of_set_field
        map_of_set_field_append del: map_of_append split: option.split)

lemma update_data0_seo_keywords:
  "map_of (ProductUpdateRequest_dict_exclude_unset r) ''seo_keywords'' =
     (case upd_seo_keywords r of None \<Rightarrow> None | Some None \<Rightarrow> Some PNone | Some (Some v) \<Rightarrow> Some (str_list v))"
  by (cases "upd_seo_keywords r")
     (simp_all add: ProductUpdateRequest_dict_exclude_unset_def map_of_set_field
        map_of_set_field_append del: map_of_append split: option.split)

lemma update_data0_tone:
  "map_of (ProductUpdateRequest_dict_exclude_unset r) ''tone'' =
     (case upd_tone r of None \<Rightarrow> None | Some None \<Rightarrow> Some PNone | Some (Some v) \<Rightarrow> Some (PStr v))"
  by (cases "upd_tone r")
     (simp_all add: ProductUpdateRequest_dict_exclude_unset_def map_of_set_field
        map_of_set_field_append del: map_of_append split: option.split)

lemma update_data0_audience:
  "map_of (ProductUpdateRequest_dict_exclude_unset r) ''audience'' =
     (case upd_audience r of None \<Rightarrow> None | Some None \<Rightarrow> Some PNone | Some (Some v) \<Rightarrow> Some (PStr v))"
  by (cases "upd_audience r")
     (simp_all add: ProductUpdateRequest_dict_exclude_unset_def map_of_set_field
        map_of_set_field_append del: map_of_append split: option.split)

lemma update_data0_language:
  "map_of (ProductUpdateRequest_dict_exclude_unset r) ''language'' =
     (case upd_language r of None \<Rightarrow> None | Some None \<Rightarrow> Some PNone | Some (Some v) \<Rightarrow> Some (PStr v))"
  by (cases "upd_language r")
     (simp_all add: ProductUpdateRequest_dict_exclude_unset_def map_of_set_field
        map_of_set_field_append del: map_of_append split: option.split)

lemma update_data0_additional_notes:
  "map_of (ProductUpdateRequest_dict_exclude_unset r) ''additional_notes'' =
     (case upd_additional_notes r of None \<Rightarrow> None | Some None \<Rightarrow> Some PNone | Some (Some v) \<Rightarrow> Some (PStr v))"
  by (cases "upd_additional_notes r")
     (simp_all add: ProductUpdateRequest_dict_exclude_unset_def map_of_set_field
        map_of_set_field_append del: map_of_append split: option.split)

lemma update_data0_length:
  "map_of (ProductUpdateRequest_dict_exclude_unset r) ''length'' =
     (case upd_length r of None \<Rightarrow> None | Some None \<Rightarrow> Some PNone | Some (Some v) \<Rightarrow> Some (PStr v))"
  by (cases "upd_length r")
     (simp_all add: ProductUpdateRequest_dict_exclude_unset_def map_of_set_field
        map_of_set_field_append del: map_of_append split: option.split)

lemma update_data0_description:
  "map_of (ProductUpdateRequest_dict_exclude_unset r) ''description'' =
     (case upd_description r of None \<Rightarrow> None | Some None \<Rightarrow> Some PNone | Some (Some v) \<Rightarrow> Some (PStr v))"
  by (cases "upd_description r")
     (simp_all add: ProductUpdateRequest_dict_exclude_unset_def map_of_set_field
        map_of_set_field_append del: map_of_append split: option.split)

lemma update_data0_regenerate_description:
  "map_of (ProductUpdateRequest_dict_exclude_unset r) ''regenerate_description'' =
     (case upd_regenerate_description r of None \<Rightarrow> None | Some None \<Rightarrow> Some PNone | Some (Some v) \<Rightarrow> Some (PBool v))"
  by (cases "upd_regenerate_description r")
     (simp_all add: ProductUpdateRequest_dict_exclude_unset_def map_of_set_field
        map_of_set_field_append del: map_of_append split: option.split)

lemma merge_item_lookup:
  "map_of (merge_item (a, b) p) k =
     (if k = a
      then (if a \<in> {''created_at'', ''updated_at'', ''id''} then map_of p a
            else if b = PNone then (if a \<in> clearable then Some PNone else map_of p a)
            else Some b)
      else map_of p k)"
  by (simp add: merge_item_def update_conv')

lemma merge_items_lookup:
  "distinct (map fst ud) \<Longrightarrow>
   map_of (fold merge_item ud p) k =
     (case map_of ud k of
        None \<Rightarrow> map_of p k
      | Some v \<Rightarrow>
          if k \<in> {''created_at'', ''updated_at'', ''id''} then map_of p k
          else if v = PNone then (if k \<in> clearable then Some PNone else map_of p k)
          else Some v)"
proof (induction ud arbitrary: p)
  case Nil
  then show ?case by simp
next
  case (Cons item ud)
  obtain a b where item: "item = (a, b)" by (cases item)
  have d: "distinct (map fst ud)" and a: "a \<notin> fst ` set ud" using Cons.prems item by auto
  have none: "map_of ud a = None" using a by (simp add: map_of_eq_None_iff)
  have step: "map_of (fold merge_item (item # ud) p) k =
      (case map_of ud k of
         None \<Rightarrow> map_of (merge_item (a, b) p) k
       | Some v \<Rightarrow>
           if k \<in> {''created_at'', ''updated_at'', ''id''} then map_of (merge_item (a, b) p) k
           else if v = PNone
           then (if k \<in> clearable then Some PNone else map_of (merge_item (a, b) p) k)
           else Some v)"
    using Cons.IH [OF d, of "merge_item (a, b) p"] item by simp
  show ?case
  proof (cases "k = a")
    case True
    then show ?thesis using step none item by (simp add: merge_item_lookup)
  next
    case False
    then show ?thesis using step item by (simp add: merge_item_lookup split: option.split)
  qed
qed

lemma update_data_delete_distinct:
  "distinct (map fst (AList.delete ''regenerate_description''
                        (ProductUpdateRequest_dict_exclude_unset r)))"
  by (simp add: distinct_delete update_data_distinct)

lemmas update_data0_lookups =
  update_data0_name update_data0_category update_data0_brand update_data0_tagline
  update_data0_features update_data0_seo_keywords update_data0_tone update_data0_audience
  update_data0_language update_data0_additional_notes update_data0_length
  update_data0_description

lemma str_list_not_None: "str_list xs \<noteq> PNone"
  by (simp add: str_list_def)

lemma update_data0_id:
  "map_of (ProductUpdateRequest_dict_exclude_unset r) ''id'' = None"
  by (simp add: ProductUpdateRequest_dict_exclude_unset_def map_of_set_field
        map_of_set_field_append del: map_of_append)

lemma update_data0_created_at:
  "map_of (ProductUpdateRequest_dict_exclude_unset r) ''created_at'' = None"
  by (simp add: ProductUpdateRequest_dict_exclude_unset_def map_of_set_field
        map_of_set_field_append del: map_of_append)

lemma update_data0_updated_at:
  "map_of (ProductUpdateRequest_dict_exclude_unset r) ''updated_at'' = None"
  by (simp add: ProductUpdateRequest_dict_exclude_unset_def map_of_set_field
        map_of_set_field_append del: map_of_append)

section \<open>Properties of the update: the merged payload\<close>

lemma payload_name:
  "map_of (merge_payload (AList.delete ''regenerate_description''
                            (ProductUpdateRequest_dict_exclude_unset r))
             (ProductResponse_dict existing)) ''name'' = Some (PStr (merge_required (upd_name r) (name existing)))"
proof -
  let ?ud = "AList.delete ''regenerate_description'' (ProductUpdateRequest_dict_exclude_unset r)"
  let ?p0 = "ProductResponse_dict existing"
  have u: "map_of ?ud ''name'' = (case upd_name r of None \<Rightarrow> None | Some None \<Rightarrow> Some PNone | Some (Some v) \<Rightarrow> Some (PStr v))"
    by (simp add: delete_conv update_data0_lookups update_data0_id update_data0_created_at
          update_data0_updated_at)
  have p: "map_of ?p0 ''name'' = Some (PStr (name existing))"
    by (simp add: ProductResponse_dict_def ProductBrief_dict_def)
  have f: "map_of (fold merge_item ?ud ?p0) ''name'' =
      (case map_of ?ud ''name'' of
        None \<Rightarrow> map_of ?p0 ''name''
      | Some v \<Rightarrow>
          if ''name'' \<in> {''created_at'', ''updated_at'', ''id''} then map_of ?p0 ''name''
          else if v = PNone then (if ''name'' \<in> clearable then Some PNone else map_of ?p0 ''name'')
          else Some v)"
    by (rule merge_items_lookup [OF update_data_delete_distinct])
  have g: "map_of (fold merge_item ?ud ?p0) ''name'' =
      (case map_of ?ud ''name'' of
        None \<Rightarrow> Some (PStr (name existing))
      | Some v \<Rightarrow> if v = PNone then Some (PStr (name existing)) else Some v)"
    unfolding f p by (simp add: clearable_def u split: option.split)
  show ?thesis
    unfolding merge_payload_def reset_if_null_def
    by (simp add: update_conv' g u merge_required_def merge_clearable_def merge_sequence_def
          opt_str_def str_list_def split: option.split)
qed

lemma payload_category:
  "map_of (merge_payload (AList.delete ''regenerate_description''
                            (ProductUpdateRequest_dict_exclude_unset r))
             (ProductResponse_dict existing)) ''category'' = Some (opt_str (merge_clearable (upd_category r) (category existing)))"
proof -
  let ?ud = "AList.delete ''regenerate_description'' (ProductUpdateRequest_dict_exclude_unset r)"
  let ?p0 = "ProductResponse_dict existing"
  have u: "map_of ?ud ''category'' = (case upd_category r of None \<Rightarrow> None | Some None \<Rightarrow> Some PNone | Some (Some v) \<Rightarrow> Some (PStr v))"
    by (simp add: delete_conv update_data0_lookups update_data0_id update_data0_created_at
          update_data0_updated_at)
  have p: "map_of ?p0 ''category'' = Some (opt_str (category existing))"
    by (simp add: ProductResponse_dict_def ProductBrief_dict_def)
  have f: "map_of (fold merge_item ?ud ?p0) ''category'' =
      (case map_of ?ud ''category'' of
        None \<Rightarrow> map_of ?p0 ''category''
      | Some v \<Rightarrow>
          if ''category'' \<in> {''created_at'', ''updated_at'', ''id''} then map_of ?p0 ''category''
          else if v = PNone then (if ''category'' \<in> clearable then Some PNone else map_of ?p0 ''category'')
          else Some v)"
    by (rule merge_items_lookup [OF update_data_delete_distinct])
  have g: "map_of (fold merge_item ?ud ?p0) ''category'' =
      (case map_of ?ud ''category'' of
        None \<Rightarrow> Some (opt_str (category existing))
      | Some v \<Rightarrow> if v = PNone then Some PNone else Some v)"
    unfolding f p by (simp add: clearable_def u split: option.split)
  show ?thesis
    unfolding merge_payload_def reset_if_null_def
    by (simp add: update_conv' g u merge_required_def merge_clearable_def merge_sequence_def
          opt_str_def str_list_def split: option.split)
qed

lemma payload_brand:
  "map_of (merge_payload (AList.delete ''regenerate_description''
                            (ProductUpdateRequest_dict_exclude_unset r))
             (ProductResponse_dict existing)) ''brand'' = Some (opt_str (merge_clearable (upd_brand r) (brand existing)))"
proof -
  let ?ud = "AList.delete ''regenerate_description'' (ProductUpdateRequest_dict_exclude_unset r)"
  let ?p0 = "ProductResponse_dict existing"
  have u: "map_of ?ud ''brand'' = (case upd_brand r of None \<Rightarrow> None | Some None \<Rightarrow> Some PNone | Some (Some v) \<Rightarrow> Some (PStr v))"
    by (simp add: delete_conv update_data0_lookups update_data0_id update_data0_created_at
          update_data0_updated_at)
  have p: "map_of ?p0 ''brand'' = Some (opt_str (brand existing))"
    by (simp add: ProductResponse_dict_def ProductBrief_dict_def)
  have f: "map_of (fold merge_item ?ud ?p0) ''brand'' =
      (case map_of ?ud ''brand'' of
        None \<Rightarrow> map_of ?p0 ''brand''
      | Some v \<Rightarrow>
          if ''brand'' \<in> {''created_at'', ''updated_at'', ''id''} then map_of ?p0 ''brand''
          else if v = PNone then (if ''brand'' \<in> clearable then Some PNone else map_of ?p0 ''brand'')
          else Some v)"
    by (rule merge_items_lookup [OF update_data_delete_distinct])
  have g: "map_of (fold merge_item ?ud ?p0) ''brand'' =
      (case map_of ?ud ''brand'' of
        None \<Rightarrow> Some (opt_str (brand existing))
      | Some v \<Rightarrow> if v = PNone then Some PNone else Some v)"
    unfolding f p by (simp add: clearable_def u split: option.split)
  show ?thesis
    unfolding merge_payload_def reset_if_null_def
    by (simp add: update_conv' g u merge_required_def merge_clearable_def merge_sequence_def
          opt_str_def str_list_def split: option.split)
qed

lemma payload_tagline:
  "map_of (merge_payload (AList.delete ''regenerate_description''
                            (ProductUpdateRequest_dict_exclude_unset r))
             (ProductResponse_dict existing)) ''tagline'' = Some (opt_str (merge_clearable (upd_tagline r) (tagline existing)))"
proof -
  let ?ud = "AList.delete ''regenerate_description'' (ProductUpdateRequest_dict_exclude_unset r)"
  let ?p0 = "ProductResponse_dict existing"
  have u: "map_of ?ud ''tagline'' = (case upd_tagline r of None \<Rightarrow> None | Some None \<Rightarrow> Some PNone | Some (Some v) \<Rightarrow> Some (PStr v))"
    by (simp add: delete_conv update_data0_lookups update_data0_id update_data0_created_at
          update_data0_updated_at)
  have p: "map_of ?p0 ''tagline'' = Some (opt_str (tagline existing))"
    by (simp add: ProductResponse_dict_def ProductBrief_dict_def)
  have f: "map_of (fold merge_item ?ud ?p0) ''tagline'' =
      (case map_of ?ud ''tagline'' of
        None \<Rightarrow> map_of ?p0 ''tagline''
      | Some v \<Rightarrow>
          if ''tagline'' \<in> {''created_at'', ''updated_at'', ''id''} then map_of ?p0 ''tagline''
          else if v = PNone then (if ''tagline'' \<in> clearable then Some PNone else map_of ?p0 ''tagline'')
          else Some v)"
    by (rule merge_items_lookup [OF update_data_delete_distinct])
  have g: "map_of (fold merge_item ?ud ?p0) ''tagline'' =
      (case map_of ?ud ''tagline'' of
        None \<Rightarrow> Some (opt_str (tagline existing))
      | Some v \<Rightarrow> if v = PNone then Some PNone else Some v)"
    unfolding f p by (simp add: clearable_def u split: option.split)
  show ?thesis
    unfolding merge_payload_def reset_if_null_def
    by (simp add: update_conv' g u merge_required_def merge_clearable_def merge_sequence_def
          opt_str_def str_list_def split: option.split)
qed

lemma payload_tone:
  "map_of (merge_payload (AList.delete ''regenerate_description''
                            (ProductUpdateRequest_dict_exclude_unset r))
             (ProductResponse_dict existing)) ''tone'' = Some (opt_str (merge_clearable (upd_tone r) (tone existing)))"
proof -
  let ?ud = "AList.delete ''regenerate_description'' (ProductUpdateRequest_dict_exclude_unset r)"
  let ?p0 = "ProductResponse_dict existing"
  have u: "map_of ?ud ''tone'' = (case upd_tone r of None \<Rightarrow> None | Some None \<Rightarrow> Some PNone | Some (Some v) \<Rightarrow> Some (PStr v))"
    by (simp add: delete_conv update_data0_lookups update_data0_id update_data0_created_at
          update_data0_updated_at)
  have p: "map_of ?p0 ''tone'' = Some (opt_str (tone existing))"
    by (simp add: ProductResponse_dict_def ProductBrief_dict_def)
  have f: "map_of (fold merge_item ?ud ?p0) ''tone'' =
      (case map_of ?ud ''tone'' of
        None \<Rightarrow> map_of ?p0 ''tone''
      | Some v \<Rightarrow>
          if ''tone'' \<in> {''created_at'', ''updated_at'', ''id''} then map_of ?p0 ''tone''
          else if v = PNone then (if ''tone'' \<in> clearable then Some PNone else map_of ?p0 ''tone'')
          else Some v)"
    by (rule merge_items_lookup [OF update_data_delete_distinct])
  have g: "map_of (fold merge_item ?ud ?p0) ''tone'' =
      (case map_of ?ud ''tone'' of
        None \<Rightarrow> Some (opt_str (tone existing))
      | Some v \<Rightarrow> if v = PNone then Some PNone else Some v)"
    unfolding f p by (simp add: clearable_def u split: option.split)
  show ?thesis
    unfolding merge_payload_def reset_if_null_def
    by (simp add: update_conv' g u merge_required_def merge_clearable_def merge_sequence_def
          opt_str_def str_list_def split: option.split)
qed

lemma payload_audience:
  "map_of (merge_payload (AList.delete ''regenerate_description''
                            (ProductUpdateRequest_dict_exclude_unset r))
             (ProductResponse_dict existing)) ''audience'' = Some (opt_str (merge_clearable (upd_audience r) (audience existing)))"
proof -
  let ?ud = "AList.delete ''regenerate_description'' (ProductUpdateRequest_dict_exclude_unset r)"
  let ?p0 = "ProductResponse_dict existing"
  have u: "map_of ?ud ''audience'' = (case upd_audience r of None \<Rightarrow> None | Some None \<Rightarrow> Some PNone | Some (Some v) \<Rightarrow> Some (PStr v))"
    by (simp add: delete_conv update_data0_lookups update_data0_id update_data0_created_at
          update_data0_updated_at)
  have p: "map_of ?p0 ''audience'' = Some (opt_str (audience existing))"
    by (simp add: ProductResponse_dict_def ProductBrief_dict_def)
  have f: "map_of (fold merge_item ?ud ?p0) ''audience'' =
      (case map_of ?ud ''audience'' of
        None \<Rightarrow> map_of ?p0 ''audience''
      | Some v \<Rightarrow>
          if ''audience'' \<in> {''created_at'', ''updated_at'', ''id''} then map_of ?p0 ''audience''
          else if v = PNone then (if ''audience'' \<in> clearable then Some PNone else map_of ?p0 ''audience'')
          else Some v)"
    by (rule merge_items_lookup [OF update_data_delete_distinct])
  have g: "map_of (fold merge_item ?ud ?p0) ''audience'' =
      (case map_of ?ud ''audience'' of
        None \<Rightarrow> Some (opt_str (audience existing))
      | Some v \<Rightarrow> if v = PNone then Some PNone else Some v)"
    unfolding f p by (simp add: clearable_def u split: option.split)
  show ?thesis
    unfolding merge_payload_def reset_if_null_def
    by (simp add: update_conv' g u merge_required_def merge_clearable_def merge_sequence_def
          opt_str_def str_list_def split: option.split)
qed

lemma payload_language:
  "map_of (merge_payload (AList.delete ''regenerate_description''
                            (ProductUpdateRequest_dict_exclude_unset r))
             (ProductResponse_dict existing)) ''language'' = Some (opt_str (merge_clearable (upd_language r) (language existing)))"
proof -
  let ?ud = "AList.delete ''regenerate_description'' (ProductUpdateRequest_dict_exclude_unset r)"
  let ?p0 = "ProductResponse_dict existing"
  have u: "map_of ?ud ''language'' = (case upd_language r of None \<Rightarrow> None | Some None \<Rightarrow> Some PNone | Some (Some v) \<Rightarrow> Some (PStr v))"
    by (simp add: delete_conv update_data0_lookups update_data0_id update_data0_created_at
          update_data0_updated_at)
  have p: "map_of ?p0 ''language'' = Some (opt_str (language existing))"
    by (simp add: ProductResponse_dict_def ProductBrief_dict_def)
  have f: "map_of (fold merge_item ?ud ?p0) ''language'' =
      (case map_of ?ud ''language'' of
        None \<Rightarrow> map_of ?p0 ''language''
      | Some v \<Rightarrow>
          if ''language'' \<in> {''created_at'', ''updated_at'', ''id''} then map_of ?p0 ''language''
          else if v = PNone then (if ''language'' \<in> clearable then Some PNone else map_of ?p0 ''language'')
          else Some v)"
    by (rule merge_items_lookup [OF update_data_delete_distinct])
  have g: "map_of (fold merge_item ?ud ?p0) ''language'' =
      (case map_of ?ud ''language'' of
        None \<Rightarrow> Some (opt_str (language existing))
      | Some v \<Rightarrow> if v = PNone then Some PNone else Some v)"
    unfolding f p by (simp add: clearable_def u split: option.split)
  show ?thesis
    unfolding merge_payload_def reset_if_null_def
    by (simp add: update_conv' g u merge_required_def merge_clearable_def merge_sequence_def
          opt_str_def str_list_def split: option.split)
qed

lemma payload_additional_notes:
  "map_of (merge_payload (AList.delete ''regenerate_description''
                            (ProductUpdateRequest_dict_exclude_unset r))
             (ProductResponse_dict existing)) ''additional_notes'' = Some (opt_str (merge_clearable (upd_additional_notes r) (additional_notes existing)))"
proof -
  let ?ud = "AList.delete ''regenerate_description'' (ProductUpdateRequest_dict_exclude_unset r)"
  let ?p0 = "ProductResponse_dict existing"
  have u: "map_of ?ud ''additional_notes'' = (case upd_additional_notes r of None \<Rightarrow> None | Some None \<Rightarrow> Some PNone | Some (Some v) \<Rightarrow> Some (PStr v))"
    by (simp add: delete_conv update_data0_lookups update_data0_id update_data0_created_at
          update_data0_updated_at)
  have p: "map_of ?p0 ''additional_notes'' = Some (opt_str (additional_notes existing))"
    by (simp add: ProductResponse_dict_def ProductBrief_dict_def)
  have f: "map_of (fold merge_item ?ud ?p0) ''additional_notes'' =
      (case map_of ?ud ''additional_notes'' of
        None \<Rightarrow> map_of ?p0 ''additional_notes''
      | Some v \<Rightarrow>
          if ''additional_notes'' \<in> {''created_at'', ''updated_at'', ''id''} then map_of ?p0 ''additional_notes''
          else if v = PNone then (if ''additional_notes'' \<in> clearable then Some PNone else map_of ?p0 ''additional_notes'')
          else Some v)"
    by (rule merge_items_lookup [OF update_data_delete_distinct])
  have g: "map_of (fold merge_item ?ud ?p0) ''additional_notes'' =
      (case map_of ?ud ''additional_notes'' of
        None \<Rightarrow> Some (opt_str (additional_notes existing))
      | Some v \<Rightarrow> if v = PNone then Some PNone else Some v)"
    unfolding f p by (simp add: clearable_def u split: option.split)
  show ?thesis
    unfolding merge_payload_def reset_if_null_def
    by (simp add: update_conv' g u merge_required_def merge_clearable_def merge_sequence_def
          opt_str_def str_list_def split: option.split)
qed

lemma payload_length:
  "map_of (merge_payload (AList.delete ''regenerate_description''
                            (ProductUpdateRequest_dict_exclude_unset r))
             (ProductResponse_dict existing)) ''length'' = Some (opt_str (merge_clearable (upd_length r) (length_f existing)))"
proof -
  let ?ud = "AList.delete ''regenerate_description'' (ProductUpdateRequest_dict_exclude_unset r)"
  let ?p0 = "ProductResponse_dict existing"
  have u: "map_of ?ud ''length'' = (case upd_length r of None \<Rightarrow> None | Some None \<Rightarrow> Some PNone | Some (Some v) \<Rightarrow> Some (PStr v))"
    by (simp add: delete_conv update_data0_lookups update_data0_id update_data0_created_at
          update_data0_updated_at)
  have p: "map_of ?p0 ''length'' = Some (opt_str (length_f existing))"
    by (simp add: ProductResponse_dict_def ProductBrief_dict_def)
  have f: "map_of (fold merge_item ?ud ?p0) ''length'' =
      (case map_of ?ud ''length'' of
        None \<Rightarrow> map_of ?p0 ''length''
      | Some v \<Rightarrow>
          if ''length'' \<in> {''created_at'', ''updated_at'', ''id''} then map_of ?p0 ''length''
          else if v = PNone then (if ''length'' \<in> clearable then Some PNone else map_of ?p0 ''length'')
          else Some v)"
    by (rule merge_items_lookup [OF update_data_delete_distinct])
  have g: "map_of (fold merge_item ?ud ?p0) ''length'' =
      (case map_of ?ud ''length'' of
        None \<Rightarrow> Some (opt_str (length_f existing))
      | Some v \<Rightarrow> if v = PNone then Some PNone else Some v)"
    unfolding f p by (simp add: clearable_def u split: option.split)
  show ?thesis
    unfolding merge_payload_def reset_if_null_def
    by (simp add: update_conv' g u merge_required_def merge_clearable_def merge_sequence_def
          opt_str_def str_list_def split: option.split)
qed

lemma payload_features:
  "map_of (merge_payload (AList.delete ''regenerate_description''
                            (ProductUpdateRequest_dict_exclude_unset r))
             (ProductResponse_dict existing)) ''features'' = Some (str_list (merge_sequence (upd_features r) (features existing)))"
proof -
  let ?ud = "AList.delete ''regenerate_description'' (ProductUpdateRequest_dict_exclude_unset r)"
  let ?p0 = "ProductResponse_dict existing"
  have u: "map_of ?ud ''features'' = (case upd_features r of None \<Rightarrow> None | Some None \<Rightarrow> Some PNone | Some (Some v) \<Rightarrow> Some (str_list v))"
    by (simp add: delete_conv update_data0_lookups update_data0_id update_data0_created_at
          update_data0_updated_at)
  have p: "map_of ?p0 ''features'' = Some (str_list (features existing))"
    by (simp add: ProductResponse_dict_def ProductBrief_dict_def)
  have f: "map_of (fold merge_item ?ud ?p0) ''features'' =
      (case map_of ?ud ''features'' of
        None \<Rightarrow> map_of ?p0 ''features''
      | Some v \<Rightarrow>
          if ''features'' \<in> {''created_at'', ''updated_at'', ''id''} then map_of ?p0 ''features''
          else if v = PNone then (if ''features'' \<in> clearable then Some PNone else map_of ?p0 ''features'')
          else Some v)"
    by (rule merge_items_lookup [OF update_data_delete_distinct])
  have g: "map_of (fold merge_item ?ud ?p0) ''features'' =
      (case map_of ?ud ''features'' of
        None \<Rightarrow> Some (str_list (features existing))
      | Some v \<Rightarrow> if v = PNone then Some (str_list (features existing)) else Some v)"
    unfolding f p by (simp add: clearable_def u split: option.split)
  show ?thesis
    unfolding merge_payload_def reset_if_null_def
    by (simp add: update_conv' g u merge_required_def merge_clearable_def merge_sequence_def
          opt_str_def str_list_def split: option.split)
qed

lemma payload_seo_keywords:
  "map_of (merge_payload (AList.delete ''regenerate_description''
                            (ProductUpdateRequest_dict_exclude_unset r))
             (ProductResponse_dict existing)) ''seo_keywords'' = Some (str_list (merge_sequence (upd_seo_keywords r) (seo_keywords existing)))"
proof -
  let ?ud = "AList.delete ''regenerate_description'' (ProductUpdateRequest_dict_exclude_unset r)"
  let ?p0 = "ProductResponse_dict existing"
  have u: "map_of ?ud ''seo_keywords'' = (case upd_seo_keywords r of None \<Rightarrow> None | Some None \<Rightarrow> Some PNone | Some (Some v) \<Rightarrow> Some (str_list v))"
    by (simp add: delete_conv update_data0_lookups update_data0_id update_data0_created_at
          update_data0_updated_at)
  have p: "map_of ?p0 ''seo_keywords'' = Some (str_list (seo_keywords existing))"
    by (simp add: ProductResponse_dict_def ProductBrief_dict_def)
  have f: "map_of (fold merge_item ?ud ?p0) ''seo_keywords'' =
      (case map_of ?ud ''seo_keywords'' of
        None \<Rightarrow> map_of ?p0 ''seo_keywords''
      | Some v \<Rightarrow>
          if ''seo_keywords'' \<in> {''created_at'', ''updated_at'', ''id''} then map_of ?p0 ''seo_keywords''
          else if v = PNone then (if ''seo_keywords'' \<in> clearable then Some PNone else map_of ?p0 ''seo_keywords'')
          else Some v)"
    by (rule merge_items_lookup [OF update_data_delete_distinct])
  have g: "map_of (fold merge_item ?ud ?p0) ''seo_keywords'' =
      (case map_of ?ud ''seo_keywords'' of
        None \<Rightarrow> Some (str_list (seo_keywords existing))
      | Some v \<Rightarrow> if v = PNone then Some (str_list (seo_keywords existing)) else Some v)"
    unfolding f p by (simp add: clearable_def u split: option.split)
  show ?thesis
    unfolding merge_payload_def reset_if_null_def
    by (simp add: update_conv' g u merge_required_def merge_clearable_def merge_sequence_def
          opt_str_def str_list_def split: option.split)
qed

lemma payload_id:
  "map_of (merge_payload (AList.delete ''regenerate_description''
                            (ProductUpdateRequest_dict_exclude_unset r))
             (ProductResponse_dict existing)) ''id'' = Some (PStr (id_f existing))"
proof -
  let ?ud = "AList.delete ''regenerate_description'' (ProductUpdateRequest_dict_exclude_unset r)"
  let ?p0 = "ProductResponse_dict existing"
  have u: "map_of ?ud ''id'' = None"
    by (simp add: delete_conv update_data0_lookups update_data0_id update_data0_created_at
          update_data0_updated_at)
  have p: "map_of ?p0 ''id'' = Some (PStr (id_f existing))"
    by (simp add: ProductResponse_dict_def ProductBrief_dict_def)
  have f: "map_of (fold merge_item ?ud ?p0) ''id'' =
      (case map_of ?ud ''id'' of
        None \<Rightarrow> map_of ?p0 ''id''
      | Some v \<Rightarrow>
          if ''id'' \<in> {''created_at'', ''updated_at'', ''id''} then map_of ?p0 ''id''
          else if v = PNone then (if ''id'' \<in> clearable then Some PNone else map_of ?p0 ''id'')
          else Some v)"
    by (rule merge_items_lookup [OF update_data_delete_distinct])
  have g: "map_of (fold merge_item ?ud ?p0) ''id'' =
      (case map_of ?ud ''id'' of
        None \<Rightarrow> Some (PStr (id_f existing))
      | Some v \<Rightarrow> if v = PNone then Some (PStr (id_f existing)) else Some v)"
    unfolding f p by (simp add: clearable_def u split: option.split)
  show ?thesis
    unfolding merge_payload_def reset_if_null_def
    by (simp add: update_conv' g u merge_required_def merge_clearable_def merge_sequence_def
          opt_str_def str_list_def split: option.split)
qed

lemma payload_created_at:
  "map_of (merge_payload (AList.delete ''regenerate_description''
                            (ProductUpdateRequest_dict_exclude_unset r))
             (ProductResponse_dict existing)) ''created_at'' = Some (PDatetime (created_at existing))"
proof -
  let ?ud = "AList.delete ''regenerate_description'' (ProductUpdateRequest_dict_exclude_unset r)"
  let ?p0 = "ProductResponse_dict existing"
  have u: "map_of ?ud ''created_at'' = None"
    by (simp add: delete_conv update_data0_lookups update_data0_id update_data0_created_at
          update_data0_updated_at)
  have p: "map_of ?p0 ''created_at'' = Some (PDatetime (created_at existing))"
    by (simp add: ProductResponse_dict_def ProductBrief_dict_def)
  have f: "map_of (fold merge_item ?ud ?p0) ''created_at'' =
      (case map_of ?ud ''created_at'' of
        None \<Rightarrow> map_of ?p0 ''created_at''
      | Some v \<Rightarrow>
          if ''created_at'' \<in> {''created_at'', ''updated_at'', ''id''} then map_of ?p0 ''created_at''
          else if v = PNone then (if ''created_at'' \<in> clearable then Some PNone else map_of ?p0 ''created_at'')
          else Some v)"
    by (rule merge_items_lookup [OF update_data_delete_distinct])
  have g: "map_of (fold merge_item ?ud ?p0) ''created_at'' =
      (case map_of ?ud ''created_at'' of
        None \<Rightarrow> Some (PDatetime (created_at existing))
      | Some v \<Rightarrow> if v = PNone then Some (PDatetime (created_at existing)) else Some v)"
    unfolding f p by (simp add: clearable_def u split: option.split)
  show ?thesis
    unfolding merge_payload_def reset_if_null_def
    by (simp add: update_conv' g u merge_required_def merge_clearable_def merge_sequence_def
          opt_str_def str_list_def split: option.split)
qed

lemma payload_updated_at:
  "map_of (merge_payload (AList.delete ''regenerate_description''
                            (ProductUpdateRequest_dict_exclude_unset r))
             (ProductResponse_dict existing)) ''updated_at'' = Some (PDatetime (updated_at existing))"
proof -
  let ?ud = "AList.delete ''regenerate_description'' (ProductUpdateRequest_dict_exclude_unset r)"
  let ?p0 = "ProductResponse_dict existing"
  have u: "map_of ?ud ''updated_at'' = None"
    by (simp add: delete_conv update_data0_lookups update_data0_id update_data0_created_at
          update_data0_updated_at)
  have p: "map_of ?p0 ''updated_at'' = Some (PDatetime (updated_at existing))"
    by (simp add: ProductResponse_dict_def ProductBrief_dict_def)
  have f: "map_of (fold merge_item ?ud ?p0) ''updated_at'' =
      (case map_of ?ud ''updated_at'' of
        None \<Rightarrow> map_of ?p0 ''updated_at''
      | Some v \<Rightarrow>
          if ''updated_at'' \<in> {''created_at'', ''updated_at'', ''id''} then map_of ?p0 ''updated_at''
          else if v = PNone then (if ''updated_at'' \<in> clearable then Some PNone else map_of ?p0 ''updated_at'')
          else Some v)"
    by (rule merge_items_lookup [OF update_data_delete_distinct])
  have g: "map_of (fold merge_item ?ud ?p0) ''updated_at'' =
      (case map_of ?ud ''updated_at'' of
        None \<Rightarrow> Some (PDatetime (updated_at existing))
      | Some v \<Rightarrow> if v = PNone then Some (PDatetime (updated_at existing)) else Some v)"
    unfolding f p by (simp add: clearable_def u split: option.split)
  show ?thesis
    unfolding merge_payload_def reset_if_null_def
    by (simp add: update_conv' g u merge_required_def merge_clearable_def merge_sequence_def
          opt_str_def str_list_def split: option.split)
qed

lemma payload_description:
  "map_of (merge_payload (AList.delete ''regenerate_description''
                            (ProductUpdateRequest_dict_exclude_unset r))
             (ProductResponse_dict existing)) ''description'' = Some (PStr (merge_required (upd_description r) (description existing)))"
proof -
  let ?ud = "AList.delete ''regenerate_description'' (ProductUpdateRequest_dict_exclude_unset r)"
  let ?p0 = "ProductResponse_dict existing"
  have u: "map_of ?ud ''description'' = (case upd_description r of None \<Rightarrow> None | Some None \<Rightarrow> Some PNone | Some (Some v) \<Rightarrow> Some (PStr v))"
    by (simp add: delete_conv update_data0_lookups update_data0_id update_data0_created_at
          update_data0_updated_at)
  have p: "map_of ?p0 ''description'' = Some (PStr (description existing))"
    by (simp add: ProductResponse_dict_def ProductBrief_dict_def)
  have f: "map_of (fold merge_item ?ud ?p0) ''description'' =
      (case map_of ?ud ''description'' of
        None \<Rightarrow> map_of ?p0 ''description''
      | Some v \<Rightarrow>
          if ''description'' \<in> {''created_at'', ''updated_at'', ''id''} then map_of ?p0 ''description''
          else if v = PNone then (if ''description'' \<in> clearable then Some PNone else map_of ?p0 ''description'')
          else Some v)"
    by (rule merge_items_lookup [OF update_data_delete_distinct])
  have g: "map_of (fold merge_item ?ud ?p0) ''description'' =
      (case map_of ?ud ''description'' of
        None \<Rightarrow> Some (PStr (description existing))
      | Some v \<Rightarrow> if v = PNone then Some (PStr (description existing)) else Some v)"
    unfolding f p by (simp add: clearable_def u split: option.split)
  show ?thesis
    unfolding merge_payload_def reset_if_null_def
    by (simp add: update_conv' g u merge_required_def merge_clearable_def merge_sequence_def
          opt_str_def str_list_def split: option.split)
qed

lemmas payload_brief_lookups =
  payload_name payload_category payload_brand payload_tagline payload_features
  payload_seo_keywords payload_tone payload_audience payload_language
  payload_additional_notes payload_length

lemma str_field_of: "map_of d k = Some (PStr s) \<Longrightarrow> str_field d k = Some s"
  by (simp add: str_field_def)

lemma opt_str_field_of: "map_of d k = Some (opt_str x) \<Longrightarrow> opt_str_field d k dflt = Some x"
  by (cases x) (simp_all add: opt_str_field_def opt_str_def)

lemma those_as_str: "those (map (as_str \<circ> PStr) xs) = Some xs"
  by (induction xs) (simp_all add: as_str_def)

lemma str_list_field_of: "map_of d k = Some (str_list xs) \<Longrightarrow> str_list_field d k = Some xs"
  by (simp add: str_list_field_def str_list_def those_as_str)

lemma datetime_field_of: "map_of d k = Some (PDatetime t) \<Longrightarrow> datetime_field d k = Some t"
  by (simp add: datetime_field_def)

lemma validate_payload_brief:
  "validate_ProductBrief
     (merge_payload (AList.delete ''regenerate_description''
                       (ProductUpdateRequest_dict_exclude_unset r))
        (ProductResponse_dict existing)) = Some (merged_brief r existing)"
  by (simp add: validate_ProductBrief_def merged_brief_def
        str_field_of [OF payload_name]
        opt_str_field_of [OF payload_category] opt_str_field_of [OF payload_brand]
        opt_str_field_of [OF payload_tagline] opt_str_field_of [OF payload_tone]
        opt_str_field_of [OF payload_audience] opt_str_field_of [OF payload_language]
        opt_str_field_of [OF payload_additional_notes] opt_str_field_of [OF payload_length]
        str_list_field_of [OF payload_features] str_list_field_of [OF payload_seo_keywords])

lemma validate_ProductBrief_cong:
  "(\<forall>k \<in> set brief_fields. map_of d k = map_of d' k) \<Longrightarrow>
   validate_ProductBrief d = validate_ProductBrief d'"
  by (simp add: validate_ProductBrief_def brief_fields_def str_field_def opt_str_field_def
        str_list_field_def)

lemma project_fields_lookup:
  "project_fields ks d = Some bp \<Longrightarrow> k \<in> set ks \<Longrightarrow> map_of bp k = map_of d k"
proof (induction ks arbitrary: bp)
  case Nil
  then show ?case by simp
next
  case (Cons a ks)
  from Cons.prems(1) obtain v rest where v: "map_of d a = Some v"
    and rest: "project_fields ks d = Some rest" and bp: "bp = (a, v) # rest"
    by (auto simp: project_fields_def split: option.splits)
  show ?case
  proof (cases "k = a")
    case True
    then show ?thesis using v bp by simp
  next
    case False
    then have "k \<in> set ks" using Cons.prems(2) by simp
    then show ?thesis using Cons.IH [OF rest] bp False by simp
  qed
qed

lemma project_fields_defined:
  "(\<forall>k \<in> set ks. map_of d k \<noteq> None) \<Longrightarrow> \<exists>bp. project_fields ks d = Some bp"
  by (induction ks) (auto simp: project_fields_def)

lemma brief_of_payload:
  "\<exists>bp. project_fields brief_fields
          (merge_payload (AList.delete ''regenerate_description''
                            (ProductUpdateRequest_dict_exclude_unset r))
             (ProductResponse_dict existing)) = Some bp
        \<and> ProductBrief_init bp = Inr (merged_brief r existing)"
proof -
  let ?p = "merge_payload (AList.delete ''regenerate_description''
                            (ProductUpdateRequest_dict_exclude_unset r))
             (ProductResponse_dict existing)"
  have "\<forall>k \<in> set brief_fields. map_of ?p k \<noteq> None"
    by (simp add: brief_fields_def payload_brief_lookups)
  then obtain bp where bp: "project_fields brief_fields ?p = Some bp"
    using project_fields_defined by blast
  have "\<forall>k \<in> set brief_fields. map_of bp k = map_of ?p k"
    using project_fields_lookup [OF bp] by blast
  then have "validate_ProductBrief bp = validate_ProductBrief ?p"
    by (rule validate_ProductBrief_cong)
  then have "ProductBrief_init bp = Inr (merged_brief r existing)"
    by (simp add: ProductBrief_init_def validate_payload_brief)
  with bp show ?thesis by blast
qed

section \<open>Properties of the update: the result\<close>

lemma validate_final_payload:
  "validate_ProductResponse
     (AList.update ''updated_at'' (PDatetime (utcnow e))
        (AList.update ''description'' (PStr d)
           (merge_payload (AList.delete ''regenerate_description''
                             (ProductUpdateRequest_dict_exclude_unset r))
              (ProductResponse_dict existing))))
   = Some (updated_product e r existing d)"
proof -
  let ?p = "merge_payload (AList.delete ''regenerate_description''
                             (ProductUpdateRequest_dict_exclude_unset r))
              (ProductResponse_dict existing)"
  let ?f = "AList.update ''updated_at'' (PDatetime (utcnow e))
              (AList.update ''description'' (PStr d) ?p)"
  have "\<forall>k \<in> set brief_fields. map_of ?f k = map_of ?p k"
    by (simp add: brief_fields_def update_conv')
  then have b: "validate_ProductBrief ?f = Some (merged_brief r existing)"
    using validate_ProductBrief_cong [of ?f ?p] by (simp add: validate_payload_brief)
  have i: "str_field ?f ''id'' = Some (id_f existing)"
    by (rule str_field_of) (simp add: update_conv' payload_id)
  have ds: "str_field ?f ''description'' = Some d"
    by (rule str_field_of) (simp add: update_conv')
  have c: "datetime_field ?f ''created_at'' = Some (created_at existing)"
    by (rule datetime_field_of) (simp add: update_conv' payload_created_at)
  have u: "datetime_field ?f ''updated_at'' = Some (utcnow e)"
    by (rule datetime_field_of) (simp add: update_conv')
  show ?thesis
    unfolding validate_ProductResponse_def b i ds c u by (simp add: updated_product_def)
qed

lemma regenerate_flag:
  "truthy (case map_of (ProductUpdateRequest_dict_exclude_unset r) ''regenerate_description'' of
             None \<Rightarrow> PBool False | Some v \<Rightarrow> v)
   = (upd_regenerate_description r = Some (Some True))"
  by (simp add: update_data0_regenerate_description split: option.split)

lemma update_data_description:
  "map_of (AList.delete ''regenerate_description''
             (ProductUpdateRequest_dict_exclude_unset r)) ''description''
   = (case upd_description r of None \<Rightarrow> None | Some None \<Rightarrow> Some PNone
      | Some (Some v) \<Rightarrow> Some (PStr v))"
  by (simp add: delete_conv update_data0_description)

lemma resolve_description_eq:
  "resolve_description e w
     (AList.delete ''regenerate_description'' (ProductUpdateRequest_dict_exclude_unset r))
     (case map_of (ProductUpdateRequest_dict_exclude_unset r) ''regenerate_description'' of
        None \<Rightarrow> PBool False | Some v \<Rightarrow> v)
     (merge_payload (AList.delete ''regenerate_description''
                       (ProductUpdateRequest_dict_exclude_unset r))
        (ProductResponse_dict existing))
   = (case upd_description r of
        Some (Some v) \<Rightarrow> (Inr (strip v), w)
      | _ \<Rightarrow>
          if upd_regenerate_description r = Some (Some True)
          then generate_product_description e w (merged_brief r existing)
          else (Inr (strip (description existing)), w))"
proof -
  obtain bp where bp: "project_fields brief_fields
          (merge_payload (AList.delete ''regenerate_description''
                            (ProductUpdateRequest_dict_exclude_unset r))
             (ProductResponse_dict existing)) = Some bp"
      and init: "ProductBrief_init bp = Inr (merged_brief r existing)"
    using brief_of_payload by blast
  show ?thesis
  proof (cases "upd_description r")
    case None
    then show ?thesis
      unfolding resolve_description_def regenerate_flag update_data_description
      by (simp add: bp init payload_description merge_required_def strip_value_def)
  next
    case (Some x)
    show ?thesis
    proof (cases x)
      case None
      with Some show ?thesis
        unfolding resolve_description_def regenerate_flag update_data_description
        by (simp add: bp init payload_description merge_required_def strip_value_def)
    next
      case (Some v)
      with \<open>upd_description r = Some x\<close> show ?thesis
        unfolding resolve_description_def regenerate_flag update_data_description
        by (simp add: strip_value_def)
    qed
  qed
qed

lemma update_product_eq:
  assumes "get_product_or_404 (products_db w) product_id = Inr existing"
  shows "update_product e w product_id r =
     (case (case upd_description r of
              Some (Some v) \<Rightarrow> (Inr (strip v), w)
            | _ \<Rightarrow>
                if upd_regenerate_description r = Some (Some True)
                then generate_product_description e w (merged_brief r existing)
                else (Inr (strip (description existing)), w)) of
        (Inl exc, w1) \<Rightarrow> (Inl exc, w1)
      | (Inr d, w1) \<Rightarrow>
          (Inr (updated_product e r existing d),
           w1\<lparr>products_db :=
                 AList.update product_id (serialize_product (updated_product e r existing d))
                   (products_db w1),
               data_file :=
                 save_products
                   (AList.update product_id (serialize_product (updated_product e r existing d))
                      (products_db w1))\<rparr>))"
  unfolding update_product_def Let_def assms resolve_description_eq
  by (simp add: ProductResponse_init_def validate_final_payload
        split: prod.split sum.split)

section \<open>Properties of the timestamps\<close>

text \<open>Parsing the ISO form of a valid timestamp gives the timestamp back.\<close>

lemma digit_val_digit: "n < 10 \<Longrightarrow> digit_val (digit n) = Some n"
  by (simp add: digit_val_def digit_def Let_def)

lemma length_zero_pad: "length (zero_pad k n) = k"
  by (induction k arbitrary: n) simp_all

lemma parse_nat_from_append:
  "parse_nat_from acc (xs @ ys) =
     (case parse_nat_from acc xs of None \<Rightarrow> None | Some a \<Rightarrow> parse_nat_from a ys)"
  by (induction xs arbitrary: acc) (simp_all split: option.split)

lemma parse_zero_pad:
  "parse_nat_from acc (zero_pad k n) = Some (acc * 10 ^ k + n mod 10 ^ k)"
proof (induction k arbitrary: n)
  case 0
  then show ?case by simp
next
  case (Suc k)
  have m: "n mod (10 * 10 ^ k) = 10 * (n div 10 mod 10 ^ k) + n mod 10"
    by (rule mod_mult2_eq)
  have d: "digit_val (digit (n mod 10)) = Some (n mod 10)"
    by (rule digit_val_digit) simp
  show ?case
    by (simp add: parse_nat_from_append Suc.IH d m algebra_simps)
qed

lemma parse_zero_pad_small:
  "n < 10 ^ k \<Longrightarrow> parse_nat_from 0 (zero_pad k n) = Some n"
  by (simp add: parse_zero_pad)

lemma iso_shape:
  fixes frac :: string
  assumes "length Y = 4" "length M = 2" "length D = 2" "length h = 2" "length m = 2"
    "length sc = 2"
    and s: "s = Y @ ''-'' @ M @ ''-'' @ D @ ''T'' @ h @ '':'' @ m @ '':'' @ sc @ frac"
  shows "\<not> length s < 19" "s ! 4 = CHR ''-''" "s ! 7 = CHR ''-''" "s ! 10 = CHR ''T''"
    "s ! 13 = CHR '':''" "s ! 16 = CHR '':''"
    "take 4 s = Y" "take 2 (drop 5 s) = M" "take 2 (drop 8 s) = D" "take 2 (drop 11 s) = h"
    "take 2 (drop 14 s) = m" "take 2 (drop 17 s) = sc" "drop 19 s = frac"
  using assms(1-6) unfolding s by (simp_all add: nth_append)

lemma parse_fraction_iso:
  "us < 1000000 \<Longrightarrow>
   parse_fraction (if us \<noteq> 0 then ''.'' @ zero_pad 6 us else []) = Some us"
  by (simp add: parse_fraction_def length_zero_pad parse_zero_pad)

lemma parse_isoformat:
  assumes "valid_datetime d"
  shows "parse_datetime (isoformat d) = Some d"
proof -
  define frac where
    "frac = (if microsecond d \<noteq> 0 then ''.'' @ zero_pad 6 (microsecond d) else [])"
  have s: "isoformat d =
      zero_pad 4 (year d) @ ''-'' @ zero_pad 2 (month d) @ ''-'' @ zero_pad 2 (day d) @ ''T''
      @ zero_pad 2 (hour d) @ '':'' @ zero_pad 2 (minute d) @ '':'' @ zero_pad 2 (second d)
      @ frac"
    by (simp add: isoformat_def frac_def)
  note sh = iso_shape [OF length_zero_pad length_zero_pad length_zero_pad length_zero_pad
      length_zero_pad length_zero_pad s]
  have dm: "days_in_month (year d) (month d) \<le> 31"
    by (simp add: days_in_month_def)
  have r: "year d < 10 ^ 4" "month d < 10 ^ 2" "day d < 10 ^ 2" "hour d < 10 ^ 2"
    "minute d < 10 ^ 2" "second d < 10 ^ 2" "microsecond d < 1000000"
    using assms dm by (simp_all add: valid_datetime_def)
  have p: "parse_nat_from 0 (zero_pad 4 (year d)) = Some (year d)"
    "parse_nat_from 0 (zero_pad 2 (month d)) = Some (month d)"
    "parse_nat_from 0 (zero_pad 2 (day d)) = Some (day d)"
    "parse_nat_from 0 (zero_pad 2 (hour d)) = Some (hour d)"
    "parse_nat_from 0 (zero_pad 2 (minute d)) = Some (minute d)"
    "parse_nat_from 0 (zero_pad 2 (second d)) = Some (second d)"
    using r by (simp_all only: parse_zero_pad_small)
  have f: "parse_fraction frac = Some (microsecond d)"
    unfolding frac_def using r(7) by (rule parse_fraction_iso)
  have n: "\<not> length (isoformat d) < 19"
    by (rule sh(1))
  have e: "\<lparr>year = year d, month = month d, day = day d, hour = hour d,
             minute = minute d, second = second d, microsecond = microsecond d\<rparr> = d"
    by simp
  show ?thesis
    unfolding parse_datetime_def using n assms by (simp add: sh(2-) p f Let_def e)
qed

section \<open>Properties of the serialization\<close>

lemma serialized_lookups:
  "map_of (serialize_product p) ''name'' = Some (PStr (name p))"
  "map_of (serialize_product p) ''category'' = Some (opt_str (category p))"
  "map_of (serialize_product p) ''brand'' = Some (opt_str (brand p))"
  "map_of (serialize_product p) ''tagline'' = Some (opt_str (tagline p))"
  "map_of (serialize_product p) ''features'' = Some (str_list (features p))"
  "map_of (serialize_product p) ''seo_keywords'' = Some (str_list (seo_keywords p))"
  "map_of (serialize_product p) ''tone'' = Some (opt_str (tone p))"
  "map_of (serialize_product p) ''audience'' = Some (opt_str (audience p))"
  "map_of (serialize_product p) ''language'' = Some (opt_str (language p))"
  "map_of (serialize_product p) ''additional_notes'' = Some (opt_str (additional_notes p))"
  "map_of (serialize_product p) ''length'' = Some (opt_str (length_f p))"
  "map_of (serialize_product p) ''id'' = Some (PStr (id_f p))"
  "map_of (serialize_product p) ''description'' = Some (PStr (description p))"
  "map_of (serialize_product p) ''created_at'' = Some (PStr (isoformat (created_at p)))"
  "map_of (serialize_product p) ''updated_at'' = Some (PStr (isoformat (updated_at p)))"
  by (simp_all add: serialize_product_def update_conv' ProductResponse_dict_def
        ProductBrief_dict_def)

lemma validate_serialized_brief:
  "validate_ProductBrief (serialize_product p) = Some (ProductBrief.truncate p)"
  by (simp add: validate_ProductBrief_def
        str_field_of [OF serialized_lookups(1)]
        opt_str_field_of [OF serialized_lookups(2)] opt_str_field_of [OF serialized_lookups(3)]
        opt_str_field_of [OF serialized_lookups(4)] str_list_field_of [OF serialized_lookups(5)]
        str_list_field_of [OF serialized_lookups(6)] opt_str_field_of [OF serialized_lookups(7)]
        opt_str_field_of [OF serialized_lookups(8)] opt_str_field_of [OF serialized_lookups(9)]
        opt_str_field_of [OF serialized_lookups(10)] opt_str_field_of [OF serialized_lookups(11)]
        ProductBrief.defs)

lemma datetime_field_iso:
  "map_of d k = Some (PStr (isoformat t)) \<Longrightarrow> valid_datetime t \<Longrightarrow> datetime_field d k = Some t"
  by (simp add: datetime_field_def parse_isoformat)

lemma deserialize_serialized:
  assumes "valid_datetime (created_at p)" "valid_datetime (updated_at p)"
  shows "ProductResponse_init (serialize_product p) = Inr p"
proof -
  have c: "datetime_field (serialize_product p) ''created_at'' = Some (created_at p)"
    by (rule datetime_field_iso [OF serialized_lookups(14) assms(1)])
  have u: "datetime_field (serialize_product p) ''updated_at'' = Some (updated_at p)"
    by (rule datetime_field_iso [OF serialized_lookups(15) assms(2)])
  show ?thesis
    by (simp add: ProductResponse_init_def validate_ProductResponse_def
          validate_serialized_brief c u
          str_field_of [OF serialized_lookups(12)] str_field_of [OF serialized_lookups(13)]
          ProductBrief.defs ProductResponse.defs)
qed

lemma save_entry_serialized: "save_entry (serialize_product p) = serialize_product p"
  by (simp add: save_entry_def serialized_lookups)

text \<open>
  Claim C9. For every product with valid timestamps, building a \<open>ProductResponse\<close>
  from the serialized dictionary gives the product back, so no field is lost, and
  serializing that result gives the same dictionary again. The two timestamps are stored
  as their ISO strings and are parsed back to the same timestamps. The sequences are
  stored as arrays of their elements, an empty sequence as the empty array.
\<close>

theorem serialize_round_trip:
  assumes "valid_datetime (created_at p)" and "valid_datetime (updated_at p)"
  shows "ProductResponse_init (serialize_product p) = Inr p
    \<and> (\<forall>p'. ProductResponse_init (serialize_product p) = Inr p'
           \<longrightarrow> serialize_product p' = serialize_product p)
    \<and> map_of (serialize_product p) ''created_at'' = Some (PStr (isoformat (created_at p)))
    \<and> map_of (serialize_product p) ''updated_at'' = Some (PStr (isoformat (updated_at p)))
    \<and> parse_datetime (isoformat (created_at p)) = Some (created_at p)
    \<and> parse_datetime (isoformat (updated_at p)) = Some (updated_at p)
    \<and> map_of (serialize_product p) ''features'' = Some (PList (map PStr (features p)))
    \<and> map_of (serialize_product p) ''seo_keywords'' = Some (PList (map PStr (seo_keywords p)))
    \<and> (features p = [] \<longrightarrow> map_of (serialize_product p) ''features'' = Some (PList []))
    \<and> (seo_keywords p = [] \<longrightarrow> map_of (serialize_product p) ''seo_keywords'' = Some (PList []))"
  using deserialize_serialized [OF assms] assms
  by (simp add: serialized_lookups str_list_def parse_isoformat)

lemma example_times_valid: "valid_datetime example_time" "valid_datetime example_later"
  by (simp_all add: example_time_def example_later_def valid_datetime_def days_in_month_def
        is_leap_def)

theorem serialize_round_trip_witness:
  "valid_datetime (created_at example_product)
   \<and> valid_datetime (updated_at example_product)
   \<and> ProductResponse_init (serialize_product example_product) = Inr example_product
   \<and> map_of (serialize_product example_product) ''seo_keywords'' = Some (PList [])"
proof -
  have c: "valid_datetime (created_at example_product)"
    by (simp add: example_product_def example_times_valid)
  have u: "valid_datetime (updated_at example_product)"
    by (simp add: example_product_def example_times_valid)
  have k: "seo_keywords example_product = []"
    by (simp add: example_product_def)
  from serialize_round_trip [OF c u]
  have i: "ProductResponse_init (serialize_product example_product) = Inr example_product"
    and s: "seo_keywords example_product = []
            \<longrightarrow> map_of (serialize_product example_product) ''seo_keywords'' = Some (PList [])"
    by blast+
  show ?thesis using c u i s k by blast
qed

section \<open>Properties of the service: update\<close>

lemma product_fields:
  "name (updated_product e r existing d) = merge_required (upd_name r) (name existing)"
  "category (updated_product e r existing d) = merge_clearable (upd_category r) (category existing)"
  "brand (updated_product e r existing d) = merge_clearable (upd_brand r) (brand existing)"
  "tagline (updated_product e r existing d) = merge_clearable (upd_tagline r) (tagline existing)"
  "features (updated_product e r existing d) = merge_sequence (upd_features r) (features existing)"
  "seo_keywords (updated_product e r existing d) = merge_sequence (upd_seo_keywords r) (seo_keywords existing)"
  "tone (updated_product e r existing d) = merge_clearable (upd_tone r) (tone existing)"
  "audience (updated_product e r existing d) = merge_clearable (upd_audience r) (audience existing)"
  "language (updated_product e r existing d) = merge_clearable (upd_language r) (language existing)"
  "additional_notes (updated_product e r existing d) = merge_clearable (upd_additional_notes r) (additional_notes existing)"
  "length_f (updated_product e r existing d) = merge_clearable (upd_length r) (length_f existing)"
  "id_f (updated_product e r existing d) = id_f existing"
  "description (updated_product e r existing d) = d"
  "created_at (updated_product e r existing d) = created_at existing"
  "updated_at (updated_product e r existing d) = utcnow e"
  "ProductBrief.truncate (updated_product e r existing d) = merged_brief r existing"
  by (simp_all add: updated_product_def merged_brief_def ProductBrief.defs ProductResponse.defs)

lemma update_product_success:
  assumes "get_product_or_404 (products_db w) product_id = Inr existing"
    and "fst (update_product e w product_id r) = Inr product"
  shows "\<exists>d. product = updated_product e r existing d
             \<and> map_of (products_db (snd (update_product e w product_id r))) product_id
                 = Some (serialize_product product)"
  using assms(2) unfolding update_product_eq [OF assms(1)]
  by (auto simp: update_conv' split: prod.splits sum.splits option.splits if_splits)

lemma serialize_product_not_empty: "serialize_product p \<noteq> []"
  using serialized_lookups(1) [of p] by auto

lemma get_serialized:
  "map_of db product_id = Some (serialize_product p) \<Longrightarrow> valid_datetime (created_at p) \<Longrightarrow>
   valid_datetime (updated_at p) \<Longrightarrow> get_product_or_404 db product_id = Inr p"
  by (simp add: get_product_or_404_def serialize_product_not_empty deserialize_serialized)

lemma example_lookup:
  "get_product_or_404 (products_db example_world) ''id1'' = Inr example_product"
  by (rule get_serialized) (simp_all add: example_world_def example_product_def example_times_valid)


text \<open>
  Claim C3. For an update of an existing product that returns a product, the merge is
  field by field: a field of the brief that the request leaves out keeps the value of the
  existing product; one of the eight optional scalar fields set to \<open>null\<close> becomes
  absent; a sequence field set to \<open>null\<close> becomes the empty sequence and one given a
  sequence takes it whole; a field given a value takes that value. The identifier and the
  creation time are those of the existing product, and the returned product is the one
  stored under the identifier.
\<close>

theorem update_product_merge:
  assumes "get_product_or_404 (products_db w) product_id = Inr existing"
    and "fst (update_product e w product_id r) = Inr product"
  shows "(upd_name r = None \<longrightarrow> name product = name existing)
    \<and> (\<forall>v. upd_name r = Some (Some v) \<longrightarrow> name product = v)
    \<and> (upd_category r = None \<longrightarrow> category product = category existing)
    \<and> (upd_category r = Some None \<longrightarrow> category product = None)
    \<and> (\<forall>v. upd_category r = Some (Some v) \<longrightarrow> category product = Some v)
    \<and> (upd_brand r = None \<longrightarrow> brand product = brand existing)
    \<and> (upd_brand r = Some None \<longrightarrow> brand product = None)
    \<and> (\<forall>v. upd_brand r = Some (Some v) \<longrightarrow> brand product = Some v)
    \<and> (upd_tagline r = None \<longrightarrow> tagline product = tagline existing)
    \<and> (upd_tagline r = Some None \<longrightarrow> tagline product = None)
    \<and> (\<forall>v. upd_tagline r = Some (Some v) \<longrightarrow> tagline product = Some v)
    \<and> (upd_features r = None \<longrightarrow> features product = features existing)
    \<and> (upd_features r = Some None \<longrightarrow> features product = [])
    \<and> (\<forall>v. upd_features r = Some (Some v) \<longrightarrow> features product = v)
    \<and> (upd_seo_keywords r = None \<longrightarrow> seo_keywords product = seo_keywords existing)
    \<and> (upd_seo_keywords r = Some None \<longrightarrow> seo_keywords product = [])
    \<and> (\<forall>v. upd_seo_keywords r = Some (Some v) \<longrightarrow> seo_keywords product = v)
    \<and> (upd_tone r = None \<longrightarrow> tone product = tone existing)
    \<and> (upd_tone r = Some None \<longrightarrow> tone product = None)
    \<and> (\<forall>v. upd_tone r = Some (Some v) \<longrightarrow> tone product = Some v)
    \<and> (upd_audience r = None \<longrightarrow> audience product = audience existing)
    \<and> (upd_audience r = Some None \<longrightarrow> audience product = None)
    \<and> (\<forall>v. upd_audience r = Some (Some v) \<longrightarrow> audience product = Some v)
    \<and> (upd_language r = None \<longrightarrow> language product = language existing)
    \<and> (upd_language r = Some None \<longrightarrow> language product = None)
    \<and> (\<forall>v. upd_language r = Some (Some v) \<longrightarrow> language product = Some v)
    \<and> (upd_additional_notes r = None \<longrightarrow> additional_notes product = additional_notes existing)
    \<and> (upd_additional_notes r = Some None \<longrightarrow> additional_notes product = None)
    \<and> (\<forall>v. upd_additional_notes r = Some (Some v) \<longrightarrow> additional_notes product = Some v)
    \<and> (upd_length r = None \<longrightarrow> length_f product = length_f existing)
    \<and> (upd_length r = Some None \<longrightarrow> length_f product = None)
    \<and> (\<forall>v. upd_length r = Some (Some v) \<longrightarrow> length_f product = Some v)
    \<and> id_f product = id_f existing \<and> created_at product = created_at existing
    \<and> map_of (products_db (snd (update_product e w product_id r))) product_id
        = Some (serialize_product product)"
proof -
  obtain d where p: "product = updated_product e r existing d"
    and s: "map_of (products_db (snd (update_product e w product_id r))) product_id
              = Some (serialize_product product)"
    using update_product_success [OF assms] by blast
  show ?thesis
    unfolding p product_fields
    using s [unfolded p]
    by (simp add: merge_required_def merge_clearable_def merge_sequence_def)
qed

lemma strip_examples:
  "strip '' Bright light. '' = ''Bright light.''" "strip ''Bright light.'' = ''Bright light.''"
  "strip ''   '' = []" "strip '' Generated text '' = ''Generated text''"
  by code_simp+

lemma example_update:
  "fst (update_product example_env example_world ''id1'' merge_request)
     = Inr (updated_product example_env merge_request example_product ''Bright light.'')"
  unfolding update_product_eq [OF example_lookup]
  by (simp add: merge_request_def no_change_def example_product_def strip_examples)

theorem update_product_merge_witness:
  "get_product_or_404 (products_db example_world) ''id1'' = Inr example_product
   \<and> fst (update_product example_env example_world ''id1'' merge_request)
       = Inr (updated_product example_env merge_request example_product ''Bright light.'')
   \<and> name (updated_product example_env merge_request example_product ''Bright light.'') = ''Lamp''
   \<and> category (updated_product example_env merge_request example_product ''Bright light.'') = None
   \<and> features (updated_product example_env merge_request example_product ''Bright light.'') = []
   \<and> tone (updated_product example_env merge_request example_product ''Bright light.'')
       = Some ''luxurious''"
proof -
  have r: "upd_name merge_request = None" "upd_category merge_request = Some None"
    "upd_features merge_request = Some None"
    "upd_tone merge_request = Some (Some ''luxurious'')"
    by (simp_all add: merge_request_def no_change_def)
  have n: "name example_product = ''Lamp''"
    by (simp add: example_product_def)
  show ?thesis
    using update_product_merge [OF example_lookup example_update] example_lookup example_update
    by (elim conjE) (simp add: r n)
qed

lemma update_explicit:
  assumes "get_product_or_404 (products_db w) product_id = Inr existing"
    and "upd_description r = Some (Some v)"
  shows "update_product e w product_id r =
     (Inr (updated_product e r existing (strip v)),
      w\<lparr>products_db :=
           AList.update product_id (serialize_product (updated_product e r existing (strip v)))
             (products_db w),
         data_file :=
           save_products
             (AList.update product_id (serialize_product (updated_product e r existing (strip v)))
                (products_db w))\<rparr>)"
  unfolding update_product_eq [OF assms(1)] using assms(2) by simp

lemma update_keep:
  assumes "get_product_or_404 (products_db w) product_id = Inr existing"
    and "upd_description r = None \<or> upd_description r = Some None"
    and "upd_regenerate_description r \<noteq> Some (Some True)"
  shows "update_product e w product_id r =
     (Inr (updated_product e r existing (strip (description existing))),
      w\<lparr>products_db :=
           AList.update product_id
             (serialize_product (updated_product e r existing (strip (description existing))))
             (products_db w),
         data_file :=
           save_products
             (AList.update product_id
                (serialize_product (updated_product e r existing (strip (description existing))))
                (products_db w))\<rparr>)"
  unfolding update_product_eq [OF assms(1)] using assms(2,3) by auto

lemma update_regenerate:
  assumes "get_product_or_404 (products_db w) product_id = Inr existing"
    and "upd_description r = None \<or> upd_description r = Some None"
    and "upd_regenerate_description r = Some (Some True)"
  shows "update_product e w product_id r =
     (case generate_product_description e w (merged_brief r existing) of
        (Inl exc, w1) \<Rightarrow> (Inl exc, w1)
      | (Inr d, w1) \<Rightarrow>
          (Inr (updated_product e r existing d),
           w1\<lparr>products_db :=
                 AList.update product_id (serialize_product (updated_product e r existing d))
                   (products_db w1),
               data_file :=
                 save_products
                   (AList.update product_id (serialize_product (updated_product e r existing d))
                      (products_db w1))\<rparr>))"
  unfolding update_product_eq [OF assms(1)] using assms(2,3) by auto

lemma update_regenerate_calls:
  assumes "get_product_or_404 (products_db w) product_id = Inr existing"
    and "upd_description r = None \<or> upd_description r = Some None"
    and "upd_regenerate_description r = Some (Some True)"
  shows "generate_calls (snd (update_product e w product_id r))
           = generate_calls w @ [merged_brief r existing]"
    and "fst (generate_product_description e w (merged_brief r existing)) = Inr d
         \<Longrightarrow> fst (update_product e w product_id r) = Inr (updated_product e r existing d)"
    and "fst (generate_product_description e w (merged_brief r existing)) = Inl exc
         \<Longrightarrow> fst (update_product e w product_id r) = Inl exc
             \<and> products_db (snd (update_product e w product_id r)) = products_db w
             \<and> data_file (snd (update_product e w product_id r)) = data_file w"
proof -
  obtain res w1 where g: "generate_product_description e w (merged_brief r existing) = (res, w1)"
    by (cases "generate_product_description e w (merged_brief r existing)")
  have w1: "products_db w1 = products_db w" "data_file w1 = data_file w"
    "generate_calls w1 = generate_calls w @ [merged_brief r existing]"
    using generate_world [of e w "merged_brief r existing"] g by simp_all
  show "generate_calls (snd (update_product e w product_id r))
           = generate_calls w @ [merged_brief r existing]"
    unfolding update_regenerate [OF assms] g using w1 by (cases res) simp_all
  show "fst (generate_product_description e w (merged_brief r existing)) = Inr d
         \<Longrightarrow> fst (update_product e w product_id r) = Inr (updated_product e r existing d)"
    unfolding update_regenerate [OF assms] g by simp
  show "fst (generate_product_description e w (merged_brief r existing)) = Inl exc
         \<Longrightarrow> fst (update_product e w product_id r) = Inl exc
             \<and> products_db (snd (update_product e w product_id r)) = products_db w
             \<and> data_file (snd (update_product e w product_id r)) = data_file w"
    unfolding update_regenerate [OF assms] g using w1 by simp
qed








section \<open>Properties of the service: create\<close>

lemma strip_Nil: "strip [] = []"
  by (simp add: strip_def lstrip_def rstrip_def)

lemma has_text_iff: "has_text x = (\<exists>d. x = Some d \<and> strip d \<noteq> [])"
  by (cases x) (auto simp: has_text_def strip_Nil)

lemma create_generate:
  assumes "auto_generate request \<or> \<not> has_text (req_description request)"
  shows "create_product e w request =
     (case generate_product_description e w (ProductBrief.truncate request) of
        (Inl exc, w1) \<Rightarrow> (Inl exc, w1)
      | (Inr d, w1) \<Rightarrow>
          (Inr (created_product e request d),
           w1\<lparr>products_db :=
                 AList.update (uuid4 e) (serialize_product (created_product e request d))
                   (products_db w1),
               data_file :=
                 save_products
                   (AList.update (uuid4 e) (serialize_product (created_product e request d))
                      (products_db w1))\<rparr>))"
  using assms
  by (auto simp: create_product_def Let_def created_product_def split: prod.split sum.split)

lemma create_explicit:
  assumes "\<not> auto_generate request" and "req_description request = Some d" and "strip d \<noteq> []"
  shows "create_product e w request =
     (Inr (created_product e request d),
      w\<lparr>products_db :=
           AList.update (uuid4 e) (serialize_product (created_product e request d))
             (products_db w),
         data_file :=
           save_products
             (AList.update (uuid4 e) (serialize_product (created_product e request d))
                (products_db w))\<rparr>)"
  using assms
  by (simp add: create_product_def Let_def created_product_def has_text_iff)

lemma create_generate_calls:
  assumes "auto_generate request \<or> \<not> has_text (req_description request)"
  shows "generate_calls (snd (create_product e w request))
           = generate_calls w @ [ProductBrief.truncate request]"
    and "fst (generate_product_description e w (ProductBrief.truncate request)) = Inl exc
         \<Longrightarrow> fst (create_product e w request) = Inl exc
             \<and> products_db (snd (create_product e w request)) = products_db w
             \<and> data_file (snd (create_product e w request)) = data_file w"
proof -
  obtain res w1 where g:
    "generate_product_description e w (ProductBrief.truncate request) = (res, w1)"
    by (cases "generate_product_description e w (ProductBrief.truncate request)")
  have w1: "products_db w1 = products_db w" "data_file w1 = data_file w"
    "generate_calls w1 = generate_calls w @ [ProductBrief.truncate request]"
    using generate_world [of e w "ProductBrief.truncate request"] g by simp_all
  show "generate_calls (snd (create_product e w request))
           = generate_calls w @ [ProductBrief.truncate request]"
    unfolding create_generate [OF assms] g using w1 by (cases res) simp_all
  show "fst (generate_product_description e w (ProductBrief.truncate request)) = Inl exc
         \<Longrightarrow> fst (create_product e w request) = Inl exc
             \<and> products_db (snd (create_product e w request)) = products_db w
             \<and> data_file (snd (create_product e w request)) = data_file w"
    unfolding create_generate [OF assms] g using w1 by simp
qed

lemma created_fields:
  "description (created_product e request d) = strip d"
  "id_f (created_product e request d) = uuid4 e"
  "created_at (created_product e request d) = utcnow e"
  "updated_at (created_product e request d) = utcnow e"
  "ProductBrief.truncate (created_product e request d) = ProductBrief.truncate request"
  by (simp_all add: created_product_def ProductBrief.defs ProductResponse.defs)


section \<open>Properties of the service: a generation that fails\<close>

text \<open>
  Claim C10. When \<open>create_product\<close> or \<open>update_product\<close> calls
  \<open>generate_product_description\<close> and the call raises, the operation raises the same
  error and leaves \<open>products_db\<close> and the snapshot file as they were: the call comes
  before the store is touched.
\<close>

theorem generation_failure_atomic:
  "((auto_generate request \<or> \<not> has_text (req_description request))
      \<and> fst (generate_product_description e w (ProductBrief.truncate request)) = Inl exc \<longrightarrow>
        fst (create_product e w request) = Inl exc
        \<and> products_db (snd (create_product e w request)) = products_db w
        \<and> data_file (snd (create_product e w request)) = data_file w)
   \<and> (get_product_or_404 (products_db w) product_id = Inr existing
      \<and> (upd_description r = None \<or> upd_description r = Some None)
      \<and> upd_regenerate_description r = Some (Some True)
      \<and> fst (generate_product_description e w (merged_brief r existing)) = Inl exc \<longrightarrow>
        fst (update_product e w product_id r) = Inl exc
        \<and> products_db (snd (update_product e w product_id r)) = products_db w
        \<and> data_file (snd (update_product e w product_id r)) = data_file w)"
  using create_generate_calls(2) [of request e w exc]
    update_regenerate_calls(3) [of w product_id existing r e exc]
  by blast

lemma rate_limit_translation:
  "translate_exception ''Rate limit reached''
     = HTTPException 429 ''Writer API rate limit exceeded. Please retry shortly.''"
  by code_simp

lemma failing_generation:
  "fst (generate_product_description failing_env example_world brief)
     = Inl (HTTPException 429 ''Writer API rate limit exceeded. Please retry shortly.'')"
  by (simp add: generate_product_description_def get_writer_client_def failing_env_def
        example_world_def rate_limit_translation split: prod.split)

theorem generation_failure_atomic_witness:
  "fst (create_product failing_env example_world auto_request)
     = Inl (HTTPException 429 ''Writer API rate limit exceeded. Please retry shortly.'')
   \<and> products_db (snd (create_product failing_env example_world auto_request))
       = products_db example_world
   \<and> data_file (snd (create_product failing_env example_world auto_request))
       = data_file example_world
   \<and> fst (update_product failing_env example_world ''id1'' regenerate_request)
     = Inl (HTTPException 429 ''Writer API rate limit exceeded. Please retry shortly.'')
   \<and> products_db (snd (update_product failing_env example_world ''id1'' regenerate_request))
       = products_db example_world
   \<and> data_file (snd (update_product failing_env example_world ''id1'' regenerate_request))
       = data_file example_world"
proof -
  have r: "auto_generate auto_request" "upd_description regenerate_request = None"
    "upd_regenerate_description regenerate_request = Some (Some True)"
    by (simp_all add: auto_request_def example_request_def regenerate_request_def no_change_def)
  show ?thesis
    using generation_failure_atomic [of auto_request failing_env example_world
        "HTTPException 429 ''Writer API rate limit exceeded. Please retry shortly.''"
        "''id1''" example_product regenerate_request]
    by (simp add: r failing_generation example_lookup)
qed
section \<open>Properties of the service: blank descriptions\<close>

lemma rstrip_prefix: "\<exists>v. t = rstrip t @ v"
proof -
  have "rev t = takeWhile isspace (rev t) @ dropWhile isspace (rev t)" by simp
  then have "rev (rev t) = rev (takeWhile isspace (rev t) @ dropWhile isspace (rev t))"
    by simp
  then have "t = rev (dropWhile isspace (rev t)) @ rev (takeWhile isspace (rev t))"
    by (simp only: rev_rev_ident rev_append)
  then show ?thesis unfolding rstrip_def by blast
qed

lemma lstrip_rstrip_lstrip: "lstrip (rstrip (lstrip s)) = rstrip (lstrip s)"
proof (cases "rstrip (lstrip s) = []")
  case True
  then show ?thesis by (simp add: lstrip_def)
next
  case False
  obtain v where v: "lstrip s = rstrip (lstrip s) @ v" using rstrip_prefix by blast
  then have ne: "lstrip s \<noteq> []" using False by auto
  have "hd (rstrip (lstrip s)) = hd (lstrip s)" using v False by (metis hd_append2)
  moreover have "\<not> isspace (hd (lstrip s))"
    using ne unfolding lstrip_def by (rule hd_dropWhile)
  ultimately have "\<not> isspace (hd (rstrip (lstrip s)))" by simp
  then show ?thesis using False unfolding lstrip_def [of "rstrip (lstrip s)"]
    by (cases "rstrip (lstrip s)") auto
qed

lemma rstrip_rstrip: "rstrip (rstrip t) = rstrip t"
  by (simp add: rstrip_def)

lemma strip_idem: "strip (strip s) = strip s"
  by (simp add: strip_def lstrip_rstrip_lstrip rstrip_rstrip)

lemma generate_result_trimmed:
  assumes "fst (generate_product_description e w brief) = Inr d"
  shows "d \<noteq> [] \<and> strip d = d"
proof -
  obtain r w1 where g: "get_writer_client e (w\<lparr>generate_calls := generate_calls w @ [brief]\<rparr>) = (r, w1)"
    by (cases "get_writer_client e (w\<lparr>generate_calls := generate_calls w @ [brief]\<rparr>)")
  obtain prompt max_tokens where b: "build_generation_prompt brief = (prompt, max_tokens)"
    by (cases "build_generation_prompt brief")
  show ?thesis
    using assms g b
    by (auto simp: generate_product_description_def Let_def strip_idem
          split: sum.splits provider_result.splits if_splits)
qed

lemma create_description_not_blank:
  assumes "fst (create_product e w request) = Inr product"
  shows "strip (description product) \<noteq> []"
proof (cases "auto_generate request \<or> \<not> has_text (req_description request)")
  case True
  obtain res w1 where g:
    "generate_product_description e w (ProductBrief.truncate request) = (res, w1)"
    by (cases "generate_product_description e w (ProductBrief.truncate request)")
  from assms obtain d where r: "res = Inr d" and p: "product = created_product e request d"
    unfolding create_generate [OF True] g by (cases res) auto
  have "d \<noteq> [] \<and> strip d = d"
    using generate_result_trimmed [of e w "ProductBrief.truncate request" d] g r by simp
  then show ?thesis unfolding p by (simp add: created_fields strip_idem)
next
  case False
  then obtain d where a: "\<not> auto_generate request" and d: "req_description request = Some d"
    and n: "strip d \<noteq> []"
    by (auto simp: has_text_iff)
  from assms have "product = created_product e request d"
    unfolding create_explicit [OF a d n] by simp
  then show ?thesis using n by (simp add: created_fields strip_idem)
qed

lemma update_blank_only_if_explicit:
  assumes "get_product_or_404 (products_db w) product_id = Inr existing"
    and "strip (description existing) \<noteq> []"
    and "fst (update_product e w product_id r) = Inr product"
    and "strip (description product) = []"
  shows "\<exists>v. upd_description r = Some (Some v) \<and> strip v = []"
proof (cases "\<exists>v. upd_description r = Some (Some v)")
  case True
  then obtain v where v: "upd_description r = Some (Some v)" by blast
  have "product = updated_product e r existing (strip v)"
    using assms(3) unfolding update_explicit [OF assms(1) v] by simp
  then have "strip v = []" using assms(4) by (simp add: product_fields strip_idem)
  then show ?thesis using v by blast
next
  case False
  then have n: "upd_description r = None \<or> upd_description r = Some None"
    by (cases "upd_description r") auto
  show ?thesis
  proof (cases "upd_regenerate_description r = Some (Some True)")
    case True
    obtain res w1 where g:
      "generate_product_description e w (merged_brief r existing) = (res, w1)"
      by (cases "generate_product_description e w (merged_brief r existing)")
    from assms(3) obtain d where r: "res = Inr d" and p: "product = updated_product e r existing d"
      unfolding update_regenerate [OF assms(1) n True] g by (cases res) auto
    have "d \<noteq> [] \<and> strip d = d"
      using generate_result_trimmed [of e w "merged_brief r existing" d] g r by simp
    then have False using assms(4) unfolding p by (simp add: product_fields)
    then show ?thesis ..
  next
    case False
    have "product = updated_product e r existing (strip (description existing))"
      using assms(3) unfolding update_keep [OF assms(1) n False] by simp
    then have False using assms(2,4) by (simp add: product_fields strip_idem)
    then show ?thesis ..
  qed
qed

lemma example_blank_update:
  "update_product example_env example_world ''id1'' blank_description_request =
     (Inr (updated_product example_env blank_description_request example_product []),
      example_world\<lparr>products_db :=
           [(''id1'', serialize_product
                        (updated_product example_env blank_description_request
                           example_product []))],
         data_file :=
           FileJson (PList [PDict (serialize_product
                        (updated_product example_env blank_description_request
                           example_product []))])\<rparr>)"
proof -
  have v: "upd_description blank_description_request = Some (Some ''   '')"
    by (simp add: blank_description_request_def no_change_def)
  have d: "products_db example_world = [(''id1'', serialize_product example_product)]"
    by (simp add: example_world_def)
  show ?thesis
    unfolding update_explicit [OF example_lookup v] d
    by (simp add: strip_examples save_products_def save_entry_serialized)
qed

text \<open>
  Claim C1 does not hold of \<open>update_product\<close>. An update of an existing product with
  the description \<open>"   "\<close> succeeds, and the record it stores, in \<open>products_db\<close>
  and in the snapshot file, has the empty description. \<open>create_product\<close> guards
  against this input (lemma \<open>create_description_not_blank\<close>), and an explicit blank
  description is the only way for an update to store a blank description over one that was
  not blank (lemma \<open>update_blank_only_if_explicit\<close>).
\<close>

theorem update_blank_description_persisted:
  "get_product_or_404 (products_db example_world) ''id1'' = Inr example_product
   \<and> upd_description blank_description_request = Some (Some ''   '')
   \<and> fst (update_product example_env example_world ''id1'' blank_description_request)
       = Inr (updated_product example_env blank_description_request example_product [])
   \<and> description (updated_product example_env blank_description_request example_product []) = []
   \<and> products_db (snd (update_product example_env example_world ''id1''
                          blank_description_request))
       = [(''id1'', serialize_product
                      (updated_product example_env blank_description_request
                         example_product []))]
   \<and> data_file (snd (update_product example_env example_world ''id1''
                        blank_description_request))
       = FileJson (PList [PDict (serialize_product
                      (updated_product example_env blank_description_request
                         example_product []))])
   \<and> map_of (serialize_product
                (updated_product example_env blank_description_request example_product []))
         ''description'' = Some (PStr [])"
proof -
  have v: "upd_description blank_description_request = Some (Some ''   '')"
    by (simp add: blank_description_request_def no_change_def)
  show ?thesis
    using example_lookup v
    by (simp add: example_blank_update serialized_lookups product_fields)
qed

end
